theory Spec2Isabelle
  imports Complex_Main "HOL-Library.AList"
begin

section \<open>JavaScript values used by the program\<close>

text \<open>
  A JavaScript \<^verbatim>\<open>Set\<close> keeps its elements in insertion order and holds no element
  twice. It is modelled as the list of its elements in that order: \<^verbatim>\<open>new Set()\<close> and
  \<^verbatim>\<open>clear()\<close> are \<open>[]\<close>, \<^verbatim>\<open>has(x)\<close> is \<open>x \<in> set xs\<close>, \<^verbatim>\<open>size\<close> is \<open>length xs\<close>,
  \<^verbatim>\<open>[...s]\<close> is the list itself, and \<^verbatim>\<open>add\<close> and \<^verbatim>\<open>delete\<close> are the two functions below.
\<close>

type_synonym 'a Set = "'a list"

definition Set_add :: "'a \<Rightarrow> 'a Set \<Rightarrow> 'a Set" where
  "Set_add x xs = (if x \<in> set xs then xs else xs @ [x])"

definition Set_delete :: "'a \<Rightarrow> 'a Set \<Rightarrow> 'a Set" where
  "Set_delete x xs = removeAll x xs"

text \<open>
  Strings are byte lists. \<^verbatim>\<open>toLowerCase\<close> is modelled on the ASCII letters only (other bytes
  are left as they are), \<^verbatim>\<open>includes\<close> (written \<open>includes_str\<close>) is the contiguous-substring test.
\<close>

definition toLowerCaseChar :: "char \<Rightarrow> char" where
  "toLowerCaseChar c =
     (let n = (of_char c :: nat) in if 65 \<le> n \<and> n \<le> 90 then char_of (n + 32) else c)"

definition toLowerCase :: "string \<Rightarrow> string" where
  "toLowerCase s = map toLowerCaseChar s"

fun startsWith :: "string \<Rightarrow> string \<Rightarrow> bool" where
  "startsWith s [] = True"
| "startsWith [] (c # cs) = False"
| "startsWith (x # xs) (c # cs) = (x = c \<and> startsWith xs cs)"

fun includes_str :: "string \<Rightarrow> string \<Rightarrow> bool" where
  "includes_str [] t = (t = [])"
| "includes_str (x # xs) t = (startsWith (x # xs) t \<or> includes_str xs t)"

section \<open>The state of \<^verbatim>\<open>src/app.js\<close>\<close>

text \<open>
  One catalog record, as \<^verbatim>\<open>fetchPokemonDetails\<close> builds it. The field \<^verbatim>\<open>id\<close> is written
  \<open>id'\<close> (\<open>id\<close> is the identity function of HOL). \<^verbatim>\<open>names\<close> is the object from language
  code to name, kept as an association list in insertion order; \<^verbatim>\<open>color\<close> is a string
  or \<^verbatim>\<open>null\<close>.
\<close>

record pokemon =
  id' :: int
  name :: string
  names :: "(string \<times> string) list"
  sprite :: string
  types :: "string list"
  generation :: nat
  evolutionStage :: nat
  isBaby :: bool
  isLegendary :: bool
  isMythical :: bool
  color :: "string option"

text \<open>
  \<^verbatim>\<open>state.currentFilters\<close>. Two of its fields share a name with a field of a catalog record;
  they are written \<open>typesF\<close> and \<open>nameF\<close> here.
\<close>

record filters =
  generations :: "nat Set"
  notGenerations :: "nat Set"
  typesF :: "string Set"
  notTypes :: "string Set"
  typeCount :: "string Set"
  notTypeCount :: "string Set"
  evolutionStages :: "nat Set"
  notEvolutionStages :: "nat Set"
  specialCategories :: "string Set"
  notSpecialCategories :: "string Set"
  colors :: "string Set"
  notColors :: "string Set"
  nameF :: string

text \<open>
  The global \<^verbatim>\<open>state\<close>, together with \<^verbatim>\<open>typeCountState\<close>, the variable that the
  type-count button's handler closes over in \<^verbatim>\<open>setupEventListeners\<close>
  (\<^verbatim>\<open>'both'\<close>, \<^verbatim>\<open>'single'\<close> or \<^verbatim>\<open>'dual'\<close>).
\<close>

record state =
  allPokemon :: "pokemon list"
  displayedPokemon :: "pokemon list"
  disabledPokemon :: "int Set"
  chosenPokemonId :: "int option"
  currentLanguage :: string
  generationMap :: "string \<rightharpoonup> nat"
  currentFilters :: filters
  typeCountState :: string

definition emptyFilters :: filters where
  "emptyFilters =
     \<lparr>generations = [], notGenerations = [], typesF = [], notTypes = [],
      typeCount = [], notTypeCount = [], evolutionStages = [], notEvolutionStages = [],
      specialCategories = [], notSpecialCategories = [], colors = [], notColors = [],
      nameF = ''''\<rparr>"

definition initialState :: state where
  "initialState =
     \<lparr>allPokemon = [], displayedPokemon = [], disabledPokemon = [], chosenPokemonId = None,
      currentLanguage = ''en'', generationMap = Map.empty, currentFilters = emptyFilters,
      typeCountState = ''both''\<rparr>"

definition MAX_POKEMON_ID :: int where
  "MAX_POKEMON_ID = 1025"

definition BATCH_SIZE :: nat where
  "BATCH_SIZE = 30"

section \<open>The filter engine: \<^verbatim>\<open>filterPokemon\<close>\<close>

text \<open>
  \<^verbatim>\<open>getDisplayName\<close>: the name in the current language, or \<^verbatim>\<open>pokemon.name\<close> when that
  entry is missing or is the empty string (which is falsy).
\<close>

definition getDisplayName :: "string \<Rightarrow> pokemon \<Rightarrow> string" where
  "getDisplayName lang p =
     (case map_of (names p) lang of
        None \<Rightarrow> name p
      | Some n \<Rightarrow> if n = [] then name p else n)"

text \<open>
  \<^verbatim>\<open>filterPokemon\<close> narrows a copy of \<^verbatim>\<open>state.allPokemon\<close> facet by facet, each facet only
  when its set is non-empty, and stores the result in \<^verbatim>\<open>state.displayedPokemon\<close>. The
  rendering of the grid that follows changes no state of the model. \<^verbatim>\<open>p.color && ...\<close>
  is false when \<^verbatim>\<open>p.color\<close> is \<^verbatim>\<open>null\<close> or the empty string.
\<close>

definition filterPokemon :: "state \<Rightarrow> state" where
  "filterPokemon s =
     (let f = currentFilters s;
          filtered = allPokemon s;
          filtered =
            (if nameF f \<noteq> [] then
               (let searchTerm = toLowerCase (nameF f)
                in filter (\<lambda>p. includes_str (toLowerCase (getDisplayName (currentLanguage s) p)) searchTerm
                               \<or> includes_str (toLowerCase (name p)) searchTerm) filtered)
             else filtered);
          filtered =
            (if length (generations f) > 0
             then filter (\<lambda>p. generation p \<in> set (generations f)) filtered else filtered);
          filtered =
            (if length (notGenerations f) > 0
             then filter (\<lambda>p. \<not> generation p \<in> set (notGenerations f)) filtered else filtered);
          filtered =
            (if length (typesF f) > 0
             then filter (\<lambda>p. list_all (\<lambda>t. t \<in> set (types p)) (typesF f)) filtered
             else filtered);
          filtered =
            (if length (notTypes f) > 0
             then filter (\<lambda>p. \<not> list_ex (\<lambda>t. t \<in> set (notTypes f)) (types p)) filtered
             else filtered);
          filtered =
            (if length (typeCount f) > 0
             then filter (\<lambda>p. (''single'' \<in> set (typeCount f) \<and> length (types p) = 1)
                             \<or> (''dual'' \<in> set (typeCount f) \<and> length (types p) = 2)) filtered
             else filtered);
          filtered =
            (if length (notTypeCount f) > 0
             then filter (\<lambda>p. \<not> (''single'' \<in> set (notTypeCount f) \<and> length (types p) = 1)
                             \<and> \<not> (''dual'' \<in> set (notTypeCount f) \<and> length (types p) = 2)) filtered
             else filtered);
          filtered =
            (if length (evolutionStages f) > 0
             then filter (\<lambda>p. evolutionStage p \<in> set (evolutionStages f)) filtered
             else filtered);
          filtered =
            (if length (notEvolutionStages f) > 0
             then filter (\<lambda>p. \<not> evolutionStage p \<in> set (notEvolutionStages f)) filtered
             else filtered);
          filtered =
            (if length (specialCategories f) > 0
             then filter (\<lambda>p. if ''baby'' \<in> set (specialCategories f) \<and> isBaby p then True
                              else if ''legendary'' \<in> set (specialCategories f) \<and> isLegendary p then True
                              else if ''mythical'' \<in> set (specialCategories f) \<and> isMythical p then True
                              else False) filtered
             else filtered);
          filtered =
            (if length (notSpecialCategories f) > 0
             then filter (\<lambda>p. if ''baby'' \<in> set (notSpecialCategories f) \<and> isBaby p then False
                              else if ''legendary'' \<in> set (notSpecialCategories f) \<and> isLegendary p then False
                              else if ''mythical'' \<in> set (notSpecialCategories f) \<and> isMythical p then False
                              else True) filtered
             else filtered);
          filtered =
            (if length (colors f) > 0
             then filter (\<lambda>p. (case color p of None \<Rightarrow> False
                                | Some c \<Rightarrow> c \<noteq> [] \<and> c \<in> set (colors f))) filtered
             else filtered);
          filtered =
            (if length (notColors f) > 0
             then filter (\<lambda>p. (case color p of None \<Rightarrow> True
                                | Some c \<Rightarrow> c = [] \<or> \<not> c \<in> set (notColors f))) filtered
             else filtered)
      in s\<lparr>displayedPokemon := filtered\<rparr>)"

text \<open>
  What \<^verbatim>\<open>filterPokemon\<close> tests of one record: one predicate for each step of the
  source, taking the set (or the search string) that the step reads, and their
  conjunction \<open>matchesFilters\<close>. Lemma \<open>filterPokemon_matches\<close> below proves that
  \<^verbatim>\<open>filterPokemon\<close> keeps exactly the records that satisfy it, in the order of the catalog.
\<close>

definition byName :: "string \<Rightarrow> string \<Rightarrow> pokemon \<Rightarrow> bool" where
  "byName lang q p \<longleftrightarrow>
     (q \<noteq> [] \<longrightarrow>
        includes_str (toLowerCase (getDisplayName lang p)) (toLowerCase q)
        \<or> includes_str (toLowerCase (name p)) (toLowerCase q))"

definition byGeneration :: "nat Set \<Rightarrow> pokemon \<Rightarrow> bool" where
  "byGeneration gs p \<longleftrightarrow> (length gs > 0 \<longrightarrow> generation p \<in> set gs)"

definition notGeneration :: "nat Set \<Rightarrow> pokemon \<Rightarrow> bool" where
  "notGeneration gs p \<longleftrightarrow> (length gs > 0 \<longrightarrow> \<not> generation p \<in> set gs)"

definition byType :: "string Set \<Rightarrow> pokemon \<Rightarrow> bool" where
  "byType ts p \<longleftrightarrow> (length ts > 0 \<longrightarrow> list_all (\<lambda>t. t \<in> set (types p)) ts)"

definition notType :: "string Set \<Rightarrow> pokemon \<Rightarrow> bool" where
  "notType ts p \<longleftrightarrow> (length ts > 0 \<longrightarrow> \<not> list_ex (\<lambda>t. t \<in> set ts) (types p))"

definition byTypeCount :: "string Set \<Rightarrow> pokemon \<Rightarrow> bool" where
  "byTypeCount cs p \<longleftrightarrow>
     (length cs > 0 \<longrightarrow>
        (''single'' \<in> set cs \<and> length (types p) = 1)
        \<or> (''dual'' \<in> set cs \<and> length (types p) = 2))"

definition notTypeCountTest :: "string Set \<Rightarrow> pokemon \<Rightarrow> bool" where
  "notTypeCountTest cs p \<longleftrightarrow>
     (length cs > 0 \<longrightarrow>
        \<not> (''single'' \<in> set cs \<and> length (types p) = 1)
        \<and> \<not> (''dual'' \<in> set cs \<and> length (types p) = 2))"

definition byEvolutionStage :: "nat Set \<Rightarrow> pokemon \<Rightarrow> bool" where
  "byEvolutionStage es p \<longleftrightarrow> (length es > 0 \<longrightarrow> evolutionStage p \<in> set es)"

definition notEvolutionStage :: "nat Set \<Rightarrow> pokemon \<Rightarrow> bool" where
  "notEvolutionStage es p \<longleftrightarrow> (length es > 0 \<longrightarrow> \<not> evolutionStage p \<in> set es)"

definition bySpecial :: "string Set \<Rightarrow> pokemon \<Rightarrow> bool" where
  "bySpecial cs p \<longleftrightarrow>
     (length cs > 0 \<longrightarrow>
        (if ''baby'' \<in> set cs \<and> isBaby p then True
         else if ''legendary'' \<in> set cs \<and> isLegendary p then True
         else if ''mythical'' \<in> set cs \<and> isMythical p then True
         else False))"

definition notSpecial :: "string Set \<Rightarrow> pokemon \<Rightarrow> bool" where
  "notSpecial cs p \<longleftrightarrow>
     (length cs > 0 \<longrightarrow>
        (if ''baby'' \<in> set cs \<and> isBaby p then False
         else if ''legendary'' \<in> set cs \<and> isLegendary p then False
         else if ''mythical'' \<in> set cs \<and> isMythical p then False
         else True))"

definition byColor :: "string Set \<Rightarrow> pokemon \<Rightarrow> bool" where
  "byColor cs p \<longleftrightarrow>
     (length cs > 0 \<longrightarrow>
        (case color p of None \<Rightarrow> False | Some c \<Rightarrow> c \<noteq> [] \<and> c \<in> set cs))"

definition notColor :: "string Set \<Rightarrow> pokemon \<Rightarrow> bool" where
  "notColor cs p \<longleftrightarrow>
     (length cs > 0 \<longrightarrow>
        (case color p of None \<Rightarrow> True | Some c \<Rightarrow> c = [] \<or> \<not> c \<in> set cs))"

definition matchesFilters :: "string \<Rightarrow> filters \<Rightarrow> pokemon \<Rightarrow> bool" where
  "matchesFilters lang f p \<longleftrightarrow>
     byName lang (nameF f) p
   \<and> byGeneration (generations f) p
   \<and> notGeneration (notGenerations f) p
   \<and> byType (typesF f) p
   \<and> notType (notTypes f) p
   \<and> byTypeCount (typeCount f) p
   \<and> notTypeCountTest (notTypeCount f) p
   \<and> byEvolutionStage (evolutionStages f) p
   \<and> notEvolutionStage (notEvolutionStages f) p
   \<and> bySpecial (specialCategories f) p
   \<and> notSpecial (notSpecialCategories f) p
   \<and> byColor (colors f) p
   \<and> notColor (notColors f) p"

section \<open>Selection and session state\<close>

text \<open>
  \<^verbatim>\<open>togglePokemon\<close>, \<^verbatim>\<open>chooseIdentity\<close> and the clear button of the chosen-Pokemon display.
  Rendering is left out: it changes no field of \<^verbatim>\<open>state\<close>.
\<close>

definition togglePokemon :: "int \<Rightarrow> state \<Rightarrow> state" where
  "togglePokemon pokemonId s =
     (if pokemonId \<in> set (disabledPokemon s)
      then s\<lparr>disabledPokemon := Set_delete pokemonId (disabledPokemon s)\<rparr>
      else s\<lparr>disabledPokemon := Set_add pokemonId (disabledPokemon s)\<rparr>)"

definition chooseIdentity :: "int \<Rightarrow> state \<Rightarrow> state" where
  "chooseIdentity pokemonId s =
     (if chosenPokemonId s = Some pokemonId
      then s\<lparr>chosenPokemonId := None\<rparr>
      else s\<lparr>chosenPokemonId := Some pokemonId\<rparr>)"

definition clearChosen :: "state \<Rightarrow> state" where
  "clearChosen s = s\<lparr>chosenPokemonId := None\<rparr>"

text \<open>
  \<^verbatim>\<open>chooseRandomPokemon\<close>. The argument \<open>r\<close> is the number that \<^verbatim>\<open>Math.random()\<close> returns
  (a number with \<open>0 \<le> r\<close> and \<open>r < 1\<close>). An index outside the list would read
  \<^verbatim>\<open>undefined\<close> and the access to its \<^verbatim>\<open>id\<close> would throw, leaving the state as it was.
  The product is taken in the reals; the rounding of the product of two doubles can move
  the index to a neighbour but not out of the list, and the properties below hold for
  every index of the list.
\<close>

definition availablePokemon :: "state \<Rightarrow> pokemon list" where
  "availablePokemon s =
     filter (\<lambda>pokemon. \<not> id' pokemon \<in> set (disabledPokemon s)) (displayedPokemon s)"

definition chooseRandomPokemon :: "real \<Rightarrow> state \<Rightarrow> state" where
  "chooseRandomPokemon r s =
     (let available = availablePokemon s
      in if length available = 0 then s
         else
           (let randomIndex = \<lfloor>r * real (length available)\<rfloor>
            in if 0 \<le> randomIndex \<and> randomIndex < int (length available)
               then chooseIdentity (id' (available ! nat randomIndex)) s
               else s))"

text \<open>
  \<^verbatim>\<open>resetAllPokemon\<close>: every set is cleared one by one, then the filter is applied again.
  The variable \<^verbatim>\<open>typeCountState\<close> of the type-count handler is out of its reach.
\<close>

definition resetAllPokemon :: "state \<Rightarrow> state" where
  "resetAllPokemon s =
     filterPokemon
       (s\<lparr>disabledPokemon := [],
          chosenPokemonId := None,
          currentFilters := (currentFilters s)
            \<lparr>generations := [], notGenerations := [], typesF := [], notTypes := [],
             typeCount := [], notTypeCount := [], evolutionStages := [],
             notEvolutionStages := [], specialCategories := [], notSpecialCategories := [],
             colors := [], notColors := [], nameF := ''''\<rparr>\<rparr>)"

section \<open>The handlers of \<^verbatim>\<open>setupEventListeners\<close>\<close>

text \<open>
  The \<^verbatim>\<open>data-*\<close> attribute of a clicked facet button: \<^verbatim>\<open>'all'\<close>, or a value of the
  facet (for generations and evolution stages the number that \<^verbatim>\<open>parseInt\<close> reads from it).
\<close>

datatype 'a button = All | Value 'a

text \<open>The generation buttons (\<^verbatim>\<open>[data-generation]\<close>).\<close>

definition onGenerationClick :: "nat button \<Rightarrow> state \<Rightarrow> state" where
  "onGenerationClick clickedGen s =
     filterPokemon
       (let f = currentFilters s
        in case clickedGen of
             All \<Rightarrow> s\<lparr>currentFilters := f\<lparr>generations := [], notGenerations := []\<rparr>\<rparr>
           | Value genNumber \<Rightarrow>
               (let isActive = genNumber \<in> set (generations f);
                    isNot = genNumber \<in> set (notGenerations f)
                in if \<not> isActive \<and> \<not> isNot then
                     s\<lparr>currentFilters := f\<lparr>generations := Set_add genNumber (generations f)\<rparr>\<rparr>
                   else if isActive then
                     s\<lparr>currentFilters :=
                         f\<lparr>generations := Set_delete genNumber (generations f),
                           notGenerations := Set_add genNumber (notGenerations f)\<rparr>\<rparr>
                   else if isNot then
                     s\<lparr>currentFilters := f\<lparr>notGenerations := Set_delete genNumber (notGenerations f)\<rparr>\<rparr>
                   else s))"

text \<open>The type buttons (\<^verbatim>\<open>[data-type]\<close>).\<close>

definition onTypeClick :: "string button \<Rightarrow> state \<Rightarrow> state" where
  "onTypeClick clickedType s =
     filterPokemon
       (let f = currentFilters s
        in case clickedType of
             All \<Rightarrow> s\<lparr>currentFilters := f\<lparr>typesF := [], notTypes := []\<rparr>\<rparr>
           | Value ty \<Rightarrow>
               (let isActive = ty \<in> set (typesF f);
                    isNot = ty \<in> set (notTypes f)
                in if \<not> isActive \<and> \<not> isNot then
                     s\<lparr>currentFilters := f\<lparr>typesF := Set_add ty (typesF f)\<rparr>\<rparr>
                   else if isActive then
                     s\<lparr>currentFilters :=
                         f\<lparr>typesF := Set_delete ty (typesF f),
                           notTypes := Set_add ty (notTypes f)\<rparr>\<rparr>
                   else if isNot then
                     s\<lparr>currentFilters := f\<lparr>notTypes := Set_delete ty (notTypes f)\<rparr>\<rparr>
                   else s))"

text \<open>
  The type-count button: one button that steps \<^verbatim>\<open>typeCountState\<close> through
  \<^verbatim>\<open>'both'\<close>, \<^verbatim>\<open>'single'\<close>, \<^verbatim>\<open>'dual'\<close>. It never writes \<^verbatim>\<open>notTypeCount\<close>.
\<close>

definition onTypeCountToggle :: "state \<Rightarrow> state" where
  "onTypeCountToggle s =
     filterPokemon
       (let s = s\<lparr>currentFilters := (currentFilters s)\<lparr>typeCount := []\<rparr>\<rparr>;
            f = currentFilters s
        in if typeCountState s = ''both'' then
             s\<lparr>typeCountState := ''single'',
               currentFilters := f\<lparr>typeCount := Set_add ''single'' (typeCount f)\<rparr>\<rparr>
           else if typeCountState s = ''single'' then
             s\<lparr>typeCountState := ''dual'',
               currentFilters := f\<lparr>typeCount := Set_add ''dual'' (typeCount f)\<rparr>\<rparr>
           else
             s\<lparr>typeCountState := ''both'', currentFilters := f\<lparr>typeCount := []\<rparr>\<rparr>)"

text \<open>The evolution-stage buttons (\<^verbatim>\<open>[data-evolution]\<close>).\<close>

definition onEvolutionClick :: "nat button \<Rightarrow> state \<Rightarrow> state" where
  "onEvolutionClick clickedStage s =
     filterPokemon
       (let f = currentFilters s
        in case clickedStage of
             All \<Rightarrow> s\<lparr>currentFilters := f\<lparr>evolutionStages := [], notEvolutionStages := []\<rparr>\<rparr>
           | Value stageNumber \<Rightarrow>
               (let isActive = stageNumber \<in> set (evolutionStages f);
                    isNot = stageNumber \<in> set (notEvolutionStages f)
                in if \<not> isActive \<and> \<not> isNot then
                     s\<lparr>currentFilters := f\<lparr>evolutionStages := Set_add stageNumber (evolutionStages f)\<rparr>\<rparr>
                   else if isActive then
                     s\<lparr>currentFilters :=
                         f\<lparr>evolutionStages := Set_delete stageNumber (evolutionStages f),
                           notEvolutionStages := Set_add stageNumber (notEvolutionStages f)\<rparr>\<rparr>
                   else if isNot then
                     s\<lparr>currentFilters :=
                         f\<lparr>notEvolutionStages := Set_delete stageNumber (notEvolutionStages f)\<rparr>\<rparr>
                   else s))"

text \<open>The special-category buttons (\<^verbatim>\<open>[data-special]\<close>); they have no \<^verbatim>\<open>'all'\<close> button.\<close>

definition onSpecialClick :: "string \<Rightarrow> state \<Rightarrow> state" where
  "onSpecialClick clickedCategory s =
     filterPokemon
       (let f = currentFilters s;
            isActive = clickedCategory \<in> set (specialCategories f);
            isNot = clickedCategory \<in> set (notSpecialCategories f)
        in if \<not> isActive \<and> \<not> isNot then
             s\<lparr>currentFilters := f\<lparr>specialCategories := Set_add clickedCategory (specialCategories f)\<rparr>\<rparr>
           else if isActive then
             s\<lparr>currentFilters :=
                 f\<lparr>specialCategories := Set_delete clickedCategory (specialCategories f),
                   notSpecialCategories := Set_add clickedCategory (notSpecialCategories f)\<rparr>\<rparr>
           else if isNot then
             s\<lparr>currentFilters :=
                 f\<lparr>notSpecialCategories := Set_delete clickedCategory (notSpecialCategories f)\<rparr>\<rparr>
           else s)"

text \<open>The color buttons (\<^verbatim>\<open>[data-color]\<close>).\<close>

definition onColorClick :: "string \<Rightarrow> state \<Rightarrow> state" where
  "onColorClick clickedColor s =
     filterPokemon
       (let f = currentFilters s;
            isActive = clickedColor \<in> set (colors f);
            isNot = clickedColor \<in> set (notColors f)
        in if \<not> isActive \<and> \<not> isNot then
             s\<lparr>currentFilters := f\<lparr>colors := Set_add clickedColor (colors f)\<rparr>\<rparr>
           else if isActive then
             s\<lparr>currentFilters :=
                 f\<lparr>colors := Set_delete clickedColor (colors f),
                   notColors := Set_add clickedColor (notColors f)\<rparr>\<rparr>
           else if isNot then
             s\<lparr>currentFilters := f\<lparr>notColors := Set_delete clickedColor (notColors f)\<rparr>\<rparr>
           else s)"

text \<open>The name search box and the language menu (which renders again but does not filter).\<close>

definition onNameInput :: "string \<Rightarrow> state \<Rightarrow> state" where
  "onNameInput v s = filterPokemon (s\<lparr>currentFilters := (currentFilters s)\<lparr>nameF := v\<rparr>\<rparr>)"

definition onLanguageSelect :: "string \<Rightarrow> state \<Rightarrow> state" where
  "onLanguageSelect selectedLang s = s\<lparr>currentLanguage := selectedLang\<rparr>"

text \<open>
  A session is a sequence of user actions, each handled to completion before the next
  (one thread, no concurrent mutation).
\<close>

datatype event =
    GenerationClick "nat button"
  | TypeClick "string button"
  | TypeCountToggle
  | EvolutionClick "nat button"
  | SpecialClick string
  | ColorClick string
  | NameInput string
  | LanguageSelect string
  | CardClick int
  | StarClick int
  | RandomClick real
  | ClearChosenClick
  | ResetClick

fun handle :: "event \<Rightarrow> state \<Rightarrow> state" where
  "handle (GenerationClick b) s = onGenerationClick b s"
| "handle (TypeClick b) s = onTypeClick b s"
| "handle TypeCountToggle s = onTypeCountToggle s"
| "handle (EvolutionClick b) s = onEvolutionClick b s"
| "handle (SpecialClick c) s = onSpecialClick c s"
| "handle (ColorClick c) s = onColorClick c s"
| "handle (NameInput v) s = onNameInput v s"
| "handle (LanguageSelect l) s = onLanguageSelect l s"
| "handle (CardClick i) s = togglePokemon i s"
| "handle (StarClick i) s = chooseIdentity i s"
| "handle (RandomClick r) s = chooseRandomPokemon r s"
| "handle ClearChosenClick s = clearChosen s"
| "handle ResetClick s = resetAllPokemon s"

definition session :: "event list \<Rightarrow> state \<Rightarrow> state" where
  "session es s = fold handle es s"

section \<open>The catalog source\<close>

text \<open>
  The remote service answers \<^verbatim>\<open>fetch(url)\<close> followed by \<^verbatim>\<open>.json()\<close>. The answers are
  typed by what the program reads of them; \<open>None\<close> stands for a rejected \<^verbatim>\<open>fetch\<close> or a
  body that \<^verbatim>\<open>.json()\<close> cannot parse, that is for an exception at that \<^verbatim>\<open>await\<close>.
  A field that the program tests for presence is an \<open>option\<close>. The service answers a
  given URL the same way throughout one ingestion.
\<close>

text \<open>A named resource of the API, \<^verbatim>\<open>{name, url}\<close>.\<close>

record namedResource =
  nameR :: string
  urlR :: string

text \<open>\<^verbatim>\<open>/generation/i\<close>: the species of generation \<open>i\<close>.\<close>

record generationData =
  pokemon_species :: "namedResource list"

text \<open>
  An entity's detail record: \<^verbatim>\<open>data.id\<close>, \<^verbatim>\<open>data.name\<close>, the two sprites the program
  looks at (\<^verbatim>\<open>data.sprites.other?.showdown?.front_default\<close> and
  \<^verbatim>\<open>data.sprites.front_default\<close>), \<^verbatim>\<open>data.types\<close> and \<^verbatim>\<open>data.species\<close>.
\<close>

record typeSlot =
  typeT :: namedResource

record pokemonData =
  idD :: int
  nameD :: string
  showdown_front_default :: "string option"
  front_default :: "string option"
  typesD :: "typeSlot list"
  speciesD :: namedResource

text \<open>A species record: the fields \<^verbatim>\<open>fetchPokemonDetails\<close> reads.\<close>

record nameEntry =
  languageN :: namedResource
  nameN :: string

record speciesData =
  namesS :: "nameEntry list option"
  is_baby :: "bool option"
  is_legendary :: "bool option"
  is_mythical :: "bool option"
  colorS :: "namedResource option"
  evolves_from_species :: "namedResource option"

record source =
  fetchGeneration :: "nat \<Rightarrow> generationData option"
  fetchList :: "namedResource list option"
  fetchDetail :: "string \<Rightarrow> pokemonData option"
  fetchSpecies :: "string \<Rightarrow> speciesData option"

datatype error = FetchError

section \<open>The ingestion pipeline\<close>

text \<open>
  \<^verbatim>\<open>fetchGenerationMappings\<close>: nine requests, each with its own \<^verbatim>\<open>.catch\<close>, so a failed
  generation adds nothing and nothing is thrown. The callbacks are run here in the
  order 1 to 9; they commute unless two generations list the same species.
\<close>

definition fetchGenerationMappings :: "source \<Rightarrow> state \<Rightarrow> state" where
  "fetchGenerationMappings src s =
     s\<lparr>generationMap :=
         fold (\<lambda>i m. case fetchGeneration src i of
                        None \<Rightarrow> m
                      | Some d \<Rightarrow> fold (\<lambda>species m. m(nameR species \<mapsto> i)) (pokemon_species d) m)
              [1..<10] (generationMap s)\<rparr>"

text \<open>\<^verbatim>\<open>fetchPokemonList\<close> has no handler of its own: a failed request throws.\<close>

definition fetchPokemonList :: "source \<Rightarrow> error + namedResource list" where
  "fetchPokemonList src = (case fetchList src of None \<Rightarrow> Inl FetchError | Some results \<Rightarrow> Inr results)"

text \<open>
  The id that a reference's URL encodes: \<^verbatim>\<open>parseInt(urlParts[urlParts.length - 2])\<close> after
  \<^verbatim>\<open>url.split('/')\<close>. \<open>None\<close> is \<^verbatim>\<open>NaN\<close>, which \<^verbatim>\<open>parseInt\<close> also returns for the
  \<^verbatim>\<open>undefined\<close> read from a list of fewer than two parts.
\<close>

fun splitOn :: "char \<Rightarrow> string \<Rightarrow> string list" where
  "splitOn sep [] = [[]]"
| "splitOn sep (c # cs) =
     (if c = sep then [] # splitOn sep cs
      else (case splitOn sep cs of [] \<Rightarrow> [[c]] | p # ps \<Rightarrow> (c # p) # ps))"

definition isWhiteSpace :: "char \<Rightarrow> bool" where
  "isWhiteSpace c = ((of_char c :: nat) \<in> {9, 10, 11, 12, 13, 32})"

text \<open>The value of a character as a digit (36 when it is none).\<close>

definition digitValue :: "char \<Rightarrow> nat" where
  "digitValue c =
     (let n = (of_char c :: nat)
      in if 48 \<le> n \<and> n \<le> 57 then n - 48
         else if 97 \<le> n \<and> n \<le> 122 then n - 87
         else if 65 \<le> n \<and> n \<le> 90 then n - 55
         else 36)"

definition parseInt :: "string \<Rightarrow> int option" where
  "parseInt str =
     (let s = dropWhile isWhiteSpace str;
          sign = (if startsWith s ''-'' then - 1 else (1 :: int));
          s = (if startsWith s ''-'' \<or> startsWith s ''+'' then drop 1 s else s);
          radix = (if startsWith s ''0x'' \<or> startsWith s ''0X'' then 16 else (10 :: nat));
          s = (if radix = 16 then drop 2 s else s);
          digits = takeWhile (\<lambda>c. digitValue c < radix) s
      in if digits = [] then None
         else Some (sign * int (foldl (\<lambda>a c. a * radix + digitValue c) 0 digits)))"

definition pokemonIdOfUrl :: "string \<Rightarrow> int option" where
  "pokemonIdOfUrl url =
     (let urlParts = splitOn CHR ''/'' url
      in if length urlParts < 2 then None
         else parseInt (urlParts ! (length urlParts - 2)))"

definition placeholderSprite :: string where
  \<open>placeholderSprite = ''data:image/svg+xml,%3Csvg xmlns="http://www.w3.org/2000/svg" width="80" height="80"%3E%3Crect fill="%23ddd" width="80" height="80"/%3E%3Ctext x="50%25" y="50%25" dominant-baseline="middle" text-anchor="middle" font-family="monospace" font-size="24" fill="%23999"%3E?%3C/text%3E%3C/svg%3E''\<close>

text \<open>
  \<^verbatim>\<open>v || alt\<close> for a string \<open>v\<close> that may be missing: \<open>v\<close> when it is present and not
  empty, \<open>alt\<close> otherwise.
\<close>

definition orElse :: "string option \<Rightarrow> string \<Rightarrow> string" where
  "orElse v alt = (case v of None \<Rightarrow> alt | Some x \<Rightarrow> if x = [] then alt else x)"

text \<open>
  \<^verbatim>\<open>fetchPokemonDetails\<close>. The outer \<^verbatim>\<open>try\<close> returns \<^verbatim>\<open>null\<close> (here \<open>None\<close>) when the
  detail request fails. The inner \<^verbatim>\<open>try\<close> holds the species request and, for a species
  with a predecessor, the request for the predecessor's species; an exception there is
  caught and logged, and the record is built from what had been assigned before it:
  \<open>speciesInfo\<close> is that block, returning \<^verbatim>\<open>names\<close>, the three flags, \<^verbatim>\<open>color\<close> and
  \<^verbatim>\<open>evolutionStage\<close>.
\<close>

definition targetLanguages :: "string list" where
  "targetLanguages = [''en'', ''de'', ''es'', ''fr'', ''ja'', ''ko'']"

definition speciesInfo ::
  "source \<Rightarrow> pokemonData \<Rightarrow> (string \<times> string) list \<times> bool \<times> bool \<times> bool \<times> string option \<times> nat" where
  "speciesInfo src d =
     (case fetchSpecies src (urlR (speciesD d)) of
        None \<Rightarrow> ([], False, False, False, None, 1)
      | Some speciesData \<Rightarrow>
          (let names =
                 (case namesS speciesData of
                    None \<Rightarrow> []
                  | Some entries \<Rightarrow>
                      fold (\<lambda>nameEntry names.
                              let langCode = nameR (languageN nameEntry)
                              in if langCode \<in> set targetLanguages
                                 then AList.update langCode (nameN nameEntry) names
                                 else names)
                           entries []);
               isBaby = (is_baby speciesData = Some True);
               isLegendary = (is_legendary speciesData = Some True);
               isMythical = (is_mythical speciesData = Some True);
               color =
                 (case colorS speciesData of
                    None \<Rightarrow> None
                  | Some c \<Rightarrow> if nameR c \<noteq> [] then Some (nameR c) else None);
               evolutionStage =
                 (case evolves_from_species speciesData of
                    None \<Rightarrow> 1
                  | Some prev \<Rightarrow>
                      (case fetchSpecies src (urlR prev) of
                         None \<Rightarrow> 1
                       | Some prevSpeciesData \<Rightarrow>
                           if evolves_from_species prevSpeciesData \<noteq> None then 3 else 2))
           in (names, isBaby, isLegendary, isMythical, color, evolutionStage)))"

text \<open>
  The two values that the inner block has assigned from a species record before it asks
  for the predecessor: the names in the target languages and the color.
\<close>

definition localizedNames :: "speciesData \<Rightarrow> (string \<times> string) list" where
  "localizedNames speciesData =
     (case namesS speciesData of
        None \<Rightarrow> []
      | Some entries \<Rightarrow>
          fold (\<lambda>nameEntry names.
                  let langCode = nameR (languageN nameEntry)
                  in if langCode \<in> set targetLanguages
                     then AList.update langCode (nameN nameEntry) names
                     else names)
               entries [])"

definition colorName :: "speciesData \<Rightarrow> string option" where
  "colorName speciesData =
     (case colorS speciesData of
        None \<Rightarrow> None
      | Some c \<Rightarrow> if nameR c \<noteq> [] then Some (nameR c) else None)"

definition fetchPokemonDetails :: "source \<Rightarrow> state \<Rightarrow> namedResource \<Rightarrow> pokemon option" where
  "fetchPokemonDetails src s pokemon =
     (case fetchDetail src (urlR pokemon) of
        None \<Rightarrow> None
      | Some d \<Rightarrow>
          (let sprite =
                 orElse (showdown_front_default d) (orElse (front_default d) placeholderSprite);
               (names, isBaby, isLegendary, isMythical, color, evolutionStage) = speciesInfo src d
           in Some \<lparr>id' = idD d,
                    name = nameD d,
                    names = names,
                    sprite = sprite,
                    types = map (\<lambda>t. nameR (typeT t)) (typesD d),
                    generation =
                      (case generationMap s (nameR (speciesD d)) of
                         None \<Rightarrow> 1
                       | Some g \<Rightarrow> if g = 0 then 1 else g),
                    evolutionStage = evolutionStage,
                    isBaby = isBaby,
                    isLegendary = isLegendary,
                    isMythical = isMythical,
                    color = color\<rparr>))"

text \<open>
  \<^verbatim>\<open>fetchPokemonDetailsBatch\<close>. \<open>makeBatches i\<close> is the loop that pushes
  \<^verbatim>\<open>filteredList.slice(i, i + BATCH_SIZE)\<close> from index \<open>i\<close> on. The batches run one after
  the other; \<^verbatim>\<open>Promise.all\<close> gives the results of a batch in the order of the batch, and
  those that are not \<^verbatim>\<open>null\<close> are pushed to \<^verbatim>\<open>state.allPokemon\<close>.
\<close>

function makeBatches :: "nat \<Rightarrow> 'a list \<Rightarrow> 'a list list" where
  "makeBatches i xs =
     (if i < length xs then take BATCH_SIZE (drop i xs) # makeBatches (i + BATCH_SIZE) xs else [])"
  by pat_completeness auto
termination
  by (relation "measure (\<lambda>(i, xs). length xs - i)") (auto simp: BATCH_SIZE_def)

fun notNull :: "'a option list \<Rightarrow> 'a list" where
  "notNull [] = []"
| "notNull (None # rs) = notNull rs"
| "notNull (Some p # rs) = p # notNull rs"

definition inRange :: "namedResource \<Rightarrow> bool" where
  "inRange pokemon =
     (case pokemonIdOfUrl (urlR pokemon) of
        None \<Rightarrow> False
      | Some pokemonId \<Rightarrow> pokemonId \<le> MAX_POKEMON_ID)"

definition fetchPokemonDetailsBatch :: "source \<Rightarrow> namedResource list \<Rightarrow> state \<Rightarrow> state" where
  "fetchPokemonDetailsBatch src pokemonList s =
     (let filteredList = filter inRange pokemonList;
          batches = makeBatches 0 filteredList
      in fold (\<lambda>batch s.
                 let batchResults = map (fetchPokemonDetails src s) batch
                 in s\<lparr>allPokemon := allPokemon s @ notNull batchResults\<rparr>)
              batches s)"

text \<open>
  What \<^verbatim>\<open>setupEventListeners\<close> writes when it runs: the language saved in
  \<^verbatim>\<open>localStorage\<close> (\<^verbatim>\<open>'en'\<close> when there is none) and the first value of \<^verbatim>\<open>typeCountState\<close>.
\<close>

definition setupEventListeners :: "string option \<Rightarrow> state \<Rightarrow> state" where
  "setupEventListeners savedLanguage s =
     s\<lparr>currentLanguage := orElse savedLanguage ''en'', typeCountState := ''both''\<rparr>"

text \<open>
  \<^verbatim>\<open>init\<close> and the \<^verbatim>\<open>catch\<close> around its steps. An exception leaves the state as it is at
  that point and shows the loading error (the first component of the result). The
  stable \<^verbatim>\<open>sort\<close> by \<^verbatim>\<open>a.id - b.id\<close> is \<open>sort_key\<close>. The steps that only render are
  left out.
\<close>

definition init :: "source \<Rightarrow> string option \<Rightarrow> state \<Rightarrow> error option \<times> state" where
  "init src savedLanguage s =
     (let s = fetchGenerationMappings src s
      in case fetchPokemonList src of
           Inl e \<Rightarrow> (Some e, s)
         | Inr pokemonList \<Rightarrow>
             (let s = fetchPokemonDetailsBatch src pokemonList s;
                  s = s\<lparr>allPokemon := sort_key id' (allPokemon s)\<rparr>;
                  s = s\<lparr>displayedPokemon := allPokemon s\<rparr>;
                  s = setupEventListeners savedLanguage s
              in (None, s)))"

section \<open>The earlier revision, \<^verbatim>\<open>src/unnamed/part_000\<close>\<close>

text \<open>
  The second source file is an earlier revision of the same program. Its records have
  the fields \<^verbatim>\<open>id\<close>, \<^verbatim>\<open>name\<close>, \<^verbatim>\<open>sprite\<close>, \<^verbatim>\<open>types\<close>, \<^verbatim>\<open>generation\<close>; its filters are the
  generation and the type facet, each with a mode switch (\<^verbatim>\<open>generationMode\<close> is
  \<^verbatim>\<open>'single'\<close> or \<^verbatim>\<open>'multiple'\<close>, \<^verbatim>\<open>typeMode\<close> is \<^verbatim>\<open>'or'\<close> or \<^verbatim>\<open>'and'\<close>), and the name.
  Its names carry the suffix \<open>0\<close> here.
\<close>

record pokemon0 =
  id0 :: int
  name0 :: string
  sprite0 :: string
  types0 :: "string list"
  generation0 :: nat

record filters0 =
  generations0 :: "nat Set"
  notGenerations0 :: "nat Set"
  generationMode0 :: string
  typesF0 :: "string Set"
  notTypes0 :: "string Set"
  typeMode0 :: string
  nameF0 :: string

record state0 =
  allPokemon0 :: "pokemon0 list"
  displayedPokemon0 :: "pokemon0 list"
  disabledPokemon0 :: "int Set"
  chosenPokemonId0 :: "int option"
  generationMap0 :: "string \<rightharpoonup> nat"
  currentFilters0 :: filters0

definition initialState0 :: state0 where
  "initialState0 =
     \<lparr>allPokemon0 = [], displayedPokemon0 = [], disabledPokemon0 = [], chosenPokemonId0 = None,
      generationMap0 = Map.empty,
      currentFilters0 =
        \<lparr>generations0 = [], notGenerations0 = [], generationMode0 = ''single'',
         typesF0 = [], notTypes0 = [], typeMode0 = ''or'', nameF0 = ''''\<rparr>\<rparr>"

text \<open>\<^verbatim>\<open>filterPokemon\<close> of this revision: the type facet tests by \<^verbatim>\<open>typeMode\<close>.\<close>

definition filterPokemon0 :: "state0 \<Rightarrow> state0" where
  "filterPokemon0 s =
     (let f = currentFilters0 s;
          filtered = allPokemon0 s;
          filtered =
            (if nameF0 f \<noteq> [] then
               (let searchTerm = toLowerCase (nameF0 f)
                in filter (\<lambda>p. includes_str (toLowerCase (name0 p)) searchTerm) filtered)
             else filtered);
          filtered =
            (if length (generations0 f) > 0
             then filter (\<lambda>p. generation0 p \<in> set (generations0 f)) filtered else filtered);
          filtered =
            (if length (notGenerations0 f) > 0
             then filter (\<lambda>p. \<not> generation0 p \<in> set (notGenerations0 f)) filtered else filtered);
          filtered =
            (if length (typesF0 f) > 0 then
               (if typeMode0 f = ''and''
                then filter (\<lambda>p. list_all (\<lambda>t. t \<in> set (types0 p)) (typesF0 f)) filtered
                else filter (\<lambda>p. list_ex (\<lambda>t. t \<in> set (typesF0 f)) (types0 p)) filtered)
             else filtered);
          filtered =
            (if length (notTypes0 f) > 0
             then filter (\<lambda>p. \<not> list_ex (\<lambda>t. t \<in> set (notTypes0 f)) (types0 p)) filtered
             else filtered)
      in s\<lparr>displayedPokemon0 := filtered\<rparr>)"

text \<open>
  The generation mode button. \<^verbatim>\<open>[...set][0]\<close> is the element added first among those
  the set holds, \<^verbatim>\<open>undefined\<close> for an empty set; \<^verbatim>\<open>if (firstGen)\<close> is false for
  \<^verbatim>\<open>undefined\<close> and for the number 0.
\<close>

definition first :: "nat Set \<Rightarrow> nat option" where
  "first xs = (case xs of [] \<Rightarrow> None | x # _ \<Rightarrow> Some x)"

definition truthyNumber :: "nat option \<Rightarrow> bool" where
  "truthyNumber v = (case v of None \<Rightarrow> False | Some n \<Rightarrow> n \<noteq> 0)"

definition onGenModeToggle0 :: "state0 \<Rightarrow> state0" where
  "onGenModeToggle0 s =
     filterPokemon0
       (let f = currentFilters0 s
        in if generationMode0 f = ''single'' then
             s\<lparr>currentFilters0 := f\<lparr>generationMode0 := ''multiple''\<rparr>\<rparr>
           else
             (let f = f\<lparr>generationMode0 := ''single''\<rparr>;
                  totalSelections = length (generations0 f) + length (notGenerations0 f)
              in if totalSelections > 1 then
                   (let firstGen = first (generations0 f);
                        firstNotGen = first (notGenerations0 f);
                        f = f\<lparr>generations0 := [], notGenerations0 := []\<rparr>
                    in if truthyNumber firstGen then
                         s\<lparr>currentFilters0 :=
                             f\<lparr>generations0 :=
                                 (case firstGen of
                                    None \<Rightarrow> generations0 f
                                  | Some g \<Rightarrow> Set_add g (generations0 f))\<rparr>\<rparr>
                       else if truthyNumber firstNotGen then
                         s\<lparr>currentFilters0 :=
                             f\<lparr>notGenerations0 :=
                                 (case firstNotGen of
                                    None \<Rightarrow> notGenerations0 f
                                  | Some n \<Rightarrow> Set_add n (notGenerations0 f))\<rparr>\<rparr>
                       else s\<lparr>currentFilters0 := f\<rparr>)
                 else s\<lparr>currentFilters0 := f\<rparr>))"

text \<open>The type mode button.\<close>

definition onTypeModeToggle0 :: "state0 \<Rightarrow> state0" where
  "onTypeModeToggle0 s =
     filterPokemon0
       (let f = currentFilters0 s
        in if typeMode0 f = ''or''
           then s\<lparr>currentFilters0 := f\<lparr>typeMode0 := ''and''\<rparr>\<rparr>
           else s\<lparr>currentFilters0 := f\<lparr>typeMode0 := ''or''\<rparr>\<rparr>)"

text \<open>
  The generation buttons of this revision: in single mode both sets are cleared before
  the clicked value takes its next state; in multiple mode only the clicked value moves.
\<close>

definition onGenerationClick0 :: "nat button \<Rightarrow> state0 \<Rightarrow> state0" where
  "onGenerationClick0 clickedGen s =
     filterPokemon0
       (let f = currentFilters0 s
        in case clickedGen of
             All \<Rightarrow> s\<lparr>currentFilters0 := f\<lparr>generations0 := [], notGenerations0 := []\<rparr>\<rparr>
           | Value genNumber \<Rightarrow>
               (let isActive = genNumber \<in> set (generations0 f);
                    isNot = genNumber \<in> set (notGenerations0 f)
                in if generationMode0 f = ''single'' then
                     (let f = f\<lparr>generations0 := [], notGenerations0 := []\<rparr>
                      in if \<not> isActive \<and> \<not> isNot then
                           s\<lparr>currentFilters0 := f\<lparr>generations0 := Set_add genNumber (generations0 f)\<rparr>\<rparr>
                         else if isActive then
                           s\<lparr>currentFilters0 :=
                               f\<lparr>generations0 := Set_delete genNumber (generations0 f),
                                 notGenerations0 := Set_add genNumber (notGenerations0 f)\<rparr>\<rparr>
                         else if isNot then
                           s\<lparr>currentFilters0 :=
                               f\<lparr>notGenerations0 := Set_delete genNumber (notGenerations0 f)\<rparr>\<rparr>
                         else s\<lparr>currentFilters0 := f\<rparr>)
                   else
                     (if \<not> isActive \<and> \<not> isNot then
                        s\<lparr>currentFilters0 := f\<lparr>generations0 := Set_add genNumber (generations0 f)\<rparr>\<rparr>
                      else if isActive then
                        s\<lparr>currentFilters0 :=
                            f\<lparr>generations0 := Set_delete genNumber (generations0 f),
                              notGenerations0 := Set_add genNumber (notGenerations0 f)\<rparr>\<rparr>
                      else if isNot then
                        s\<lparr>currentFilters0 :=
                            f\<lparr>notGenerations0 := Set_delete genNumber (notGenerations0 f)\<rparr>\<rparr>
                      else s)))"

text \<open>The type buttons of this revision.\<close>

definition onTypeClick0 :: "string button \<Rightarrow> state0 \<Rightarrow> state0" where
  "onTypeClick0 clickedType s =
     filterPokemon0
       (let f = currentFilters0 s
        in case clickedType of
             All \<Rightarrow> s\<lparr>currentFilters0 := f\<lparr>typesF0 := [], notTypes0 := []\<rparr>\<rparr>
           | Value ty \<Rightarrow>
               (let isActive = ty \<in> set (typesF0 f);
                    isNot = ty \<in> set (notTypes0 f)
                in if \<not> isActive \<and> \<not> isNot then
                     s\<lparr>currentFilters0 := f\<lparr>typesF0 := Set_add ty (typesF0 f)\<rparr>\<rparr>
                   else if isActive then
                     s\<lparr>currentFilters0 :=
                         f\<lparr>typesF0 := Set_delete ty (typesF0 f),
                           notTypes0 := Set_add ty (notTypes0 f)\<rparr>\<rparr>
                   else if isNot then
                     s\<lparr>currentFilters0 := f\<lparr>notTypes0 := Set_delete ty (notTypes0 f)\<rparr>\<rparr>
                   else s))"

text \<open>
  What \<^verbatim>\<open>filterPokemon\<close> of the earlier revision tests of one record, step by step, and
  the conjunction of the steps (lemma \<open>filterPokemon0_matches\<close> below).
\<close>

definition byName0 :: "string \<Rightarrow> pokemon0 \<Rightarrow> bool" where
  "byName0 q p \<longleftrightarrow> (q \<noteq> [] \<longrightarrow> includes_str (toLowerCase (name0 p)) (toLowerCase q))"

definition byGeneration0 :: "nat Set \<Rightarrow> pokemon0 \<Rightarrow> bool" where
  "byGeneration0 gs p \<longleftrightarrow> (length gs > 0 \<longrightarrow> generation0 p \<in> set gs)"

definition notGeneration0 :: "nat Set \<Rightarrow> pokemon0 \<Rightarrow> bool" where
  "notGeneration0 gs p \<longleftrightarrow> (length gs > 0 \<longrightarrow> \<not> generation0 p \<in> set gs)"

definition byType0 :: "string \<Rightarrow> string Set \<Rightarrow> pokemon0 \<Rightarrow> bool" where
  "byType0 mode ts p \<longleftrightarrow>
     (length ts > 0 \<longrightarrow>
        (if mode = ''and'' then list_all (\<lambda>t. t \<in> set (types0 p)) ts
         else list_ex (\<lambda>t. t \<in> set ts) (types0 p)))"

definition notType0 :: "string Set \<Rightarrow> pokemon0 \<Rightarrow> bool" where
  "notType0 ts p \<longleftrightarrow> (length ts > 0 \<longrightarrow> \<not> list_ex (\<lambda>t. t \<in> set ts) (types0 p))"

definition matchesFilters0 :: "filters0 \<Rightarrow> pokemon0 \<Rightarrow> bool" where
  "matchesFilters0 f p \<longleftrightarrow>
     byName0 (nameF0 f) p
   \<and> byGeneration0 (generations0 f) p
   \<and> notGeneration0 (notGenerations0 f) p
   \<and> byType0 (typeMode0 f) (typesF0 f) p
   \<and> notType0 (notTypes0 f) p"

section \<open>Predicates on the filter state\<close>

text \<open>No value is in a facet's include set and in its exclude set.\<close>

definition disjointFilters :: "filters \<Rightarrow> bool" where
  "disjointFilters f \<longleftrightarrow>
     set (generations f) \<inter> set (notGenerations f) = {}
   \<and> set (typesF f) \<inter> set (notTypes f) = {}
   \<and> set (typeCount f) \<inter> set (notTypeCount f) = {}
   \<and> set (evolutionStages f) \<inter> set (notEvolutionStages f) = {}
   \<and> set (specialCategories f) \<inter> set (notSpecialCategories f) = {}
   \<and> set (colors f) \<inter> set (notColors f) = {}"

text \<open>
  What every handler keeps: the sets are disjoint and \<^verbatim>\<open>notTypeCount\<close>, which no handler
  writes to except to clear it, is empty.
\<close>

definition filterInvariant :: "filters \<Rightarrow> bool" where
  "filterInvariant f \<longleftrightarrow> disjointFilters f \<and> notTypeCount f = []"

text \<open>
  The state of the facet value that a click on a value button toggles: \<open>included\<close> when
  it is in the include set of its facet only, \<open>excluded\<close> when it is in the exclude set
  only, \<open>unselected\<close> when it is in neither. Other events toggle no value.
\<close>

fun includeSet :: "event \<Rightarrow> filters \<Rightarrow> bool" where
  "includeSet (GenerationClick (Value v)) f = (v \<in> set (generations f))"
| "includeSet (TypeClick (Value v)) f = (v \<in> set (typesF f))"
| "includeSet (EvolutionClick (Value v)) f = (v \<in> set (evolutionStages f))"
| "includeSet (SpecialClick v) f = (v \<in> set (specialCategories f))"
| "includeSet (ColorClick v) f = (v \<in> set (colors f))"
| "includeSet _ f = False"

fun excludeSet :: "event \<Rightarrow> filters \<Rightarrow> bool" where
  "excludeSet (GenerationClick (Value v)) f = (v \<in> set (notGenerations f))"
| "excludeSet (TypeClick (Value v)) f = (v \<in> set (notTypes f))"
| "excludeSet (EvolutionClick (Value v)) f = (v \<in> set (notEvolutionStages f))"
| "excludeSet (SpecialClick v) f = (v \<in> set (notSpecialCategories f))"
| "excludeSet (ColorClick v) f = (v \<in> set (notColors f))"
| "excludeSet _ f = False"

fun togglesValue :: "event \<Rightarrow> bool" where
  "togglesValue (GenerationClick (Value v)) = True"
| "togglesValue (TypeClick (Value v)) = True"
| "togglesValue (EvolutionClick (Value v)) = True"
| "togglesValue (SpecialClick v) = True"
| "togglesValue (ColorClick v) = True"
| "togglesValue _ = False"

definition unselected :: "event \<Rightarrow> filters \<Rightarrow> bool" where
  "unselected e f \<longleftrightarrow> togglesValue e \<and> \<not> includeSet e f \<and> \<not> excludeSet e f"

definition included :: "event \<Rightarrow> filters \<Rightarrow> bool" where
  "included e f \<longleftrightarrow> togglesValue e \<and> includeSet e f \<and> \<not> excludeSet e f"

definition excluded :: "event \<Rightarrow> filters \<Rightarrow> bool" where
  "excluded e f \<longleftrightarrow> togglesValue e \<and> \<not> includeSet e f \<and> excludeSet e f"

section \<open>Example data\<close>

text \<open>A small catalog and a state over it, for the concrete instances below.\<close>

definition bulbasaur :: pokemon where
  "bulbasaur =
     \<lparr>id' = 1, name = ''bulbasaur'', names = [(''en'', ''Bulbasaur''), (''de'', ''Bisasam'')],
      sprite = ''bulbasaur.gif'', types = [''grass'', ''poison''], generation = 1,
      evolutionStage = 1, isBaby = False, isLegendary = False, isMythical = False,
      color = Some ''green''\<rparr>"

definition charmander :: pokemon where
  "charmander =
     \<lparr>id' = 4, name = ''charmander'', names = [(''en'', ''Charmander'')],
      sprite = ''charmander.gif'', types = [''fire''], generation = 1,
      evolutionStage = 1, isBaby = False, isLegendary = False, isMythical = False,
      color = Some ''red''\<rparr>"

definition charizard :: pokemon where
  "charizard =
     \<lparr>id' = 6, name = ''charizard'', names = [(''en'', ''Charizard'')],
      sprite = ''charizard.gif'', types = [''fire'', ''flying''], generation = 1,
      evolutionStage = 3, isBaby = False, isLegendary = False, isMythical = False,
      color = Some ''red''\<rparr>"

text \<open>A record whose species request failed: no names, no flags, no color, stage 1.\<close>

definition togepi :: pokemon where
  "togepi =
     \<lparr>id' = 175, name = ''togepi'', names = [],
      sprite = ''togepi.gif'', types = [''fairy''], generation = 2,
      evolutionStage = 1, isBaby = False, isLegendary = False, isMythical = False,
      color = None\<rparr>"

definition exampleState :: state where
  "exampleState =
     initialState\<lparr>allPokemon := [bulbasaur, charmander, charizard, togepi],
                  displayedPokemon := [bulbasaur, charmander, charizard, togepi]\<rparr>"

text \<open>A small catalog of the earlier revision.\<close>

definition charmander0 :: pokemon0 where
  "charmander0 =
     \<lparr>id0 = 4, name0 = ''charmander'', sprite0 = ''charmander.gif'', types0 = [''fire''],
      generation0 = 1\<rparr>"

definition charizard0 :: pokemon0 where
  "charizard0 =
     \<lparr>id0 = 6, name0 = ''charizard'', sprite0 = ''charizard.gif'',
      types0 = [''fire'', ''flying''], generation0 = 1\<rparr>"

definition hoothoot0 :: pokemon0 where
  "hoothoot0 =
     \<lparr>id0 = 163, name0 = ''hoothoot'', sprite0 = ''hoothoot.gif'',
      types0 = [''normal'', ''flying''], generation0 = 2\<rparr>"

definition exampleState0 :: state0 where
  "exampleState0 =
     initialState0\<lparr>allPokemon0 := [charmander0, charizard0, hoothoot0],
                   displayedPokemon0 := [charmander0, charizard0, hoothoot0]\<rparr>"

text \<open>
  The earlier revision after a switch to multiple mode and clicks on the generations 3
  and 5, in this order.
\<close>

definition multipleState0 :: state0 where
  "multipleState0 =
     onGenerationClick0 (Value 5) (onGenerationClick0 (Value 3) (onGenModeToggle0 exampleState0))"

text \<open>
  A catalog source with a chain of four species, A to B to C to D (each evolves from the
  one before), one entity for each, an entity whose species request fails, an entity
  whose predecessor request fails, an entity whose detail request fails, and a reference
  beyond the supported ids. Generation 1 lists the four species of the chain; the
  requests for the other generations fail.
\<close>

definition speciesRef :: "string \<Rightarrow> namedResource" where
  "speciesRef n = \<lparr>nameR = n, urlR = ''https://pokeapi.co/api/v2/pokemon-species/'' @ n @ ''/''\<rparr>"

definition pokemonRef :: "string \<Rightarrow> string \<Rightarrow> namedResource" where
  "pokemonRef n i = \<lparr>nameR = n, urlR = ''https://pokeapi.co/api/v2/pokemon/'' @ i @ ''/''\<rparr>"

definition detailOf :: "int \<Rightarrow> string \<Rightarrow> string \<Rightarrow> pokemonData" where
  "detailOf i n ty =
     \<lparr>idD = i, nameD = n, showdown_front_default = None, front_default = Some (n @ ''.png''),
      typesD = [\<lparr>typeT = \<lparr>nameR = ty, urlR = ''https://pokeapi.co/api/v2/type/'' @ ty @ ''/''\<rparr>\<rparr>],
      speciesD = speciesRef n\<rparr>"

definition speciesOf :: "string \<Rightarrow> string option \<Rightarrow> speciesData" where
  "speciesOf n prev =
     \<lparr>namesS = Some [\<lparr>languageN = \<lparr>nameR = ''en'', urlR = ''https://pokeapi.co/api/v2/language/9/''\<rparr>,
                       nameN = n\<rparr>],
      is_baby = Some False, is_legendary = Some False, is_mythical = Some False,
      colorS = Some \<lparr>nameR = ''red'', urlR = ''https://pokeapi.co/api/v2/pokemon-color/8/''\<rparr>,
      evolves_from_species = map_option speciesRef prev\<rparr>"

definition exampleSource :: source where
  "exampleSource =
     \<lparr>fetchGeneration =
        (\<lambda>i. if i = 1
              then Some \<lparr>pokemon_species = [speciesRef ''a'', speciesRef ''b'', speciesRef ''c'',
                                           speciesRef ''d'']\<rparr>
              else None),
      fetchList =
        Some [pokemonRef ''d'' ''4'', pokemonRef ''a'' ''1'', pokemonRef ''lost'' ''5'',
              pokemonRef ''b'' ''2'', pokemonRef ''c'' ''3'', pokemonRef ''e'' ''6'',
              pokemonRef ''f'' ''7'', pokemonRef ''a-mega'' ''10001''],
      fetchDetail =
        (\<lambda>u. if u = urlR (pokemonRef ''a'' ''1'') then Some (detailOf 1 ''a'' ''fire'')
              else if u = urlR (pokemonRef ''b'' ''2'') then Some (detailOf 2 ''b'' ''fire'')
              else if u = urlR (pokemonRef ''c'' ''3'') then Some (detailOf 3 ''c'' ''fire'')
              else if u = urlR (pokemonRef ''d'' ''4'') then Some (detailOf 4 ''d'' ''fire'')
              else if u = urlR (pokemonRef ''e'' ''6'') then Some (detailOf 6 ''e'' ''water'')
              else if u = urlR (pokemonRef ''f'' ''7'') then Some (detailOf 7 ''f'' ''water'')
              else if u = urlR (pokemonRef ''a-mega'' ''10001'')
                then Some (detailOf 10001 ''a-mega'' ''fire'')
              else None),
      fetchSpecies =
        (\<lambda>u. if u = urlR (speciesRef ''a'') then Some (speciesOf ''a'' None)
              else if u = urlR (speciesRef ''b'') then Some (speciesOf ''b'' (Some ''a''))
              else if u = urlR (speciesRef ''c'') then Some (speciesOf ''c'' (Some ''b''))
              else if u = urlR (speciesRef ''d'') then Some (speciesOf ''d'' (Some ''c''))
              else if u = urlR (speciesRef ''f'') then Some (speciesOf ''f'' (Some ''gone''))
              else None)\<rparr>"

text \<open>The same source when the request for the reference list fails.\<close>

definition failingSource :: source where
  "failingSource = exampleSource\<lparr>fetchList := None\<rparr>"

section \<open>Properties of the filter engine\<close>

lemmas facet_defs =
  byName_def byGeneration_def notGeneration_def byType_def notType_def byTypeCount_def
  notTypeCountTest_def byEvolutionStage_def notEvolutionStage_def bySpecial_def notSpecial_def
  byColor_def notColor_def

lemmas example_defs = exampleState_def initialState_def emptyFilters_def
  bulbasaur_def charmander_def charizard_def togepi_def

lemmas example0_defs = exampleState0_def initialState0_def charmander0_def charizard0_def
  hoothoot0_def

lemma guarded_filter: "(if c then filter P xs else xs) = filter (\<lambda>x. c \<longrightarrow> P x) xs"
  by simp

text \<open>
  \<^verbatim>\<open>filterPokemon\<close> keeps the records of the full catalog that pass every facet, in the
  order of the catalog, and writes nothing but \<^verbatim>\<open>displayedPokemon\<close>.
\<close>

lemma filterPokemon_matches:
  "filterPokemon s =
     s\<lparr>displayedPokemon :=
         filter (matchesFilters (currentLanguage s) (currentFilters s)) (allPokemon s)\<rparr>"
  unfolding filterPokemon_def Let_def guarded_filter filter_filter matchesFilters_def facet_defs
  by (simp only: conj_assoc)

lemma displayed_filterPokemon:
  "displayedPokemon (filterPokemon s) =
     filter (matchesFilters (currentLanguage s) (currentFilters s)) (allPokemon s)"
  by (simp add: filterPokemon_matches)

lemma filterPokemon_keeps:
  "currentFilters (filterPokemon s) = currentFilters s"
  "allPokemon (filterPokemon s) = allPokemon s"
  "disabledPokemon (filterPokemon s) = disabledPokemon s"
  "chosenPokemonId (filterPokemon s) = chosenPokemonId s"
  "currentLanguage (filterPokemon s) = currentLanguage s"
  "typeCountState (filterPokemon s) = typeCountState s"
  "generationMap (filterPokemon s) = generationMap s"
  by (simp_all add: filterPokemon_matches)

lemma facet_nil:
  "byName lang [] p" "byGeneration [] p" "notGeneration [] p" "byType [] p" "notType [] p"
  "byTypeCount [] p" "notTypeCountTest [] p" "byEvolutionStage [] p" "notEvolutionStage [] p"
  "bySpecial [] p" "notSpecial [] p" "byColor [] p" "notColor [] p"
  by (simp_all add: facet_defs)

lemma matchesFilters_empty: "matchesFilters lang emptyFilters p"
  by (simp add: matchesFilters_def emptyFilters_def facet_nil)

subsection \<open>The color facet\<close>

lemma color_None_rejected:
  "color p = None \<Longrightarrow> colors f \<noteq> [] \<Longrightarrow> \<not> matchesFilters lang f p"
  by (simp add: matchesFilters_def byColor_def)

lemma color_None_not_excluded:
  "color p = None \<Longrightarrow>
     matchesFilters lang (f\<lparr>notColors := X\<rparr>) p = matchesFilters lang (f\<lparr>notColors := []\<rparr>) p"
  by (simp add: matchesFilters_def notColor_def)

lemma color_Some_membership:
  "color p = Some c \<Longrightarrow> c \<noteq> [] \<Longrightarrow>
     matchesFilters lang f p \<longleftrightarrow>
       (colors f = [] \<or> c \<in> set (colors f)) \<and> c \<notin> set (notColors f)
       \<and> matchesFilters lang (f\<lparr>colors := [], notColors := []\<rparr>) p"
  by (auto simp add: matchesFilters_def byColor_def notColor_def)

text \<open>
  Claim C10. A record whose \<^verbatim>\<open>color\<close> is \<^verbatim>\<open>null\<close> is displayed under no non-empty color
  include set, and whether it is displayed does not depend on the color exclude set:
  any exclude set \<open>X\<close> displays it exactly when the empty one does. A record with a
  color \<open>c\<close> is displayed exactly when \<open>c\<close> is in the include set (or that set is empty),
  \<open>c\<close> is not in the exclude set, and the record passes the other facets. The color read
  from a species record is never the empty string (see \<open>ingested_color_not_empty\<close>).
\<close>

theorem color_absent_facet:
  "(color p = None \<longrightarrow>
      (colors (currentFilters s) \<noteq> [] \<longrightarrow> p \<notin> set (displayedPokemon (filterPokemon s)))
    \<and> (p \<in> set (displayedPokemon
              (filterPokemon (s\<lparr>currentFilters := (currentFilters s)\<lparr>notColors := X\<rparr>\<rparr>)))
         \<longleftrightarrow> p \<in> set (displayedPokemon
              (filterPokemon (s\<lparr>currentFilters := (currentFilters s)\<lparr>notColors := []\<rparr>\<rparr>)))))
   \<and> (color p = Some c \<and> c \<noteq> [] \<longrightarrow>
        (p \<in> set (displayedPokemon (filterPokemon s)) \<longleftrightarrow>
           (colors (currentFilters s) = [] \<or> c \<in> set (colors (currentFilters s)))
           \<and> c \<notin> set (notColors (currentFilters s))
           \<and> p \<in> set (displayedPokemon
                 (filterPokemon
                    (s\<lparr>currentFilters := (currentFilters s)\<lparr>colors := [], notColors := []\<rparr>\<rparr>)))))"
proof (intro conjI impI)
  assume "color p = None" and "colors (currentFilters s) \<noteq> []"
  then show "p \<notin> set (displayedPokemon (filterPokemon s))"
    by (simp add: displayed_filterPokemon color_None_rejected)
next
  assume n: "color p = None"
  show "p \<in> set (displayedPokemon
           (filterPokemon (s\<lparr>currentFilters := (currentFilters s)\<lparr>notColors := X\<rparr>\<rparr>)))
         \<longleftrightarrow> p \<in> set (displayedPokemon
           (filterPokemon (s\<lparr>currentFilters := (currentFilters s)\<lparr>notColors := []\<rparr>\<rparr>)))"
    by (simp add: displayed_filterPokemon color_None_not_excluded[OF n, where X = X])
next
  assume "color p = Some c \<and> c \<noteq> []"
  then have c: "color p = Some c" "c \<noteq> []" by simp_all
  show "p \<in> set (displayedPokemon (filterPokemon s)) \<longleftrightarrow>
           (colors (currentFilters s) = [] \<or> c \<in> set (colors (currentFilters s)))
           \<and> c \<notin> set (notColors (currentFilters s))
           \<and> p \<in> set (displayedPokemon
                 (filterPokemon
                    (s\<lparr>currentFilters := (currentFilters s)\<lparr>colors := [], notColors := []\<rparr>\<rparr>)))"
    using color_Some_membership[OF c, of "currentLanguage s" "currentFilters s"]
    by (simp add: displayed_filterPokemon) blast
qed

theorem color_absent_facet_witness:
  "togepi \<notin> set (displayedPokemon
       (filterPokemon (exampleState\<lparr>currentFilters := emptyFilters\<lparr>colors := [''red'']\<rparr>\<rparr>)))
   \<and> togepi \<in> set (displayedPokemon
       (filterPokemon
          (exampleState\<lparr>currentFilters := emptyFilters\<lparr>notColors := [''red'', ''green'']\<rparr>\<rparr>)))
   \<and> charmander \<in> set (displayedPokemon
       (filterPokemon (exampleState\<lparr>currentFilters := emptyFilters\<lparr>colors := [''red'']\<rparr>\<rparr>)))
   \<and> charmander \<notin> set (displayedPokemon
       (filterPokemon
          (exampleState\<lparr>currentFilters := emptyFilters\<lparr>notColors := [''red'', ''green'']\<rparr>\<rparr>)))"
  using color_absent_facet [of togepi
          "exampleState\<lparr>currentFilters := emptyFilters\<lparr>colors := [''red'']\<rparr>\<rparr>" "[]" "''red''"]
    color_absent_facet [of togepi
          "exampleState\<lparr>currentFilters := emptyFilters\<rparr>" "[''red'', ''green'']" "''red''"]
    color_absent_facet [of charmander
          "exampleState\<lparr>currentFilters := emptyFilters\<lparr>colors := [''red'']\<rparr>\<rparr>" "[]" "''red''"]
    color_absent_facet [of charmander
          "exampleState\<lparr>currentFilters := emptyFilters\<lparr>notColors := [''red'', ''green'']\<rparr>\<rparr>"
          "[]" "''red''"]
  by (simp add: example_defs displayed_filterPokemon matchesFilters_def facet_defs
      getDisplayName_def)

subsection \<open>Reset\<close>

lemma clear_all_filters:
  "f\<lparr>generations := [], notGenerations := [], typesF := [], notTypes := [],
     typeCount := [], notTypeCount := [], evolutionStages := [],
     notEvolutionStages := [], specialCategories := [], notSpecialCategories := [],
     colors := [], notColors := [], nameF := ''''\<rparr> = emptyFilters"
  by (simp add: emptyFilters_def)

lemma currentFilters_reset: "currentFilters (resetAllPokemon s) = emptyFilters"
  by (simp add: resetAllPokemon_def filterPokemon_keeps clear_all_filters)

text \<open>
  Claim C8. Whatever the state before, after \<^verbatim>\<open>resetAllPokemon\<close> the filters are the
  empty filters (every include and exclude set empty, the name query empty), no record
  is disabled, none is chosen, and the displayed list is the full catalog in its order,
  as it is again when the filter is applied to the state after the reset.
\<close>

theorem reset_postcondition:
  "currentFilters (resetAllPokemon s) = emptyFilters
   \<and> disabledPokemon (resetAllPokemon s) = []
   \<and> chosenPokemonId (resetAllPokemon s) = None
   \<and> allPokemon (resetAllPokemon s) = allPokemon s
   \<and> displayedPokemon (resetAllPokemon s) = allPokemon s
   \<and> displayedPokemon (filterPokemon (resetAllPokemon s)) = allPokemon s"
proof -
  have a: "allPokemon (resetAllPokemon s) = allPokemon s"
    by (simp add: resetAllPokemon_def filterPokemon_keeps)
  have d: "displayedPokemon (resetAllPokemon s) = allPokemon s"
    by (simp add: resetAllPokemon_def displayed_filterPokemon clear_all_filters
        matchesFilters_empty)
  have e: "displayedPokemon (filterPokemon (resetAllPokemon s)) = allPokemon s"
    by (simp add: displayed_filterPokemon currentFilters_reset matchesFilters_empty a)
  have "disabledPokemon (resetAllPokemon s) = []" "chosenPokemonId (resetAllPokemon s) = None"
    by (simp_all add: resetAllPokemon_def filterPokemon_keeps)
  with a d e currentFilters_reset show ?thesis by simp
qed

section \<open>Properties of the selection state\<close>

lemma randomIndex_in_range:
  fixes r :: real and n :: nat
  assumes "0 \<le> r" "r < 1" "0 < n"
  shows "0 \<le> \<lfloor>r * real n\<rfloor> \<and> \<lfloor>r * real n\<rfloor> < int n"
proof
  from assms show "0 \<le> \<lfloor>r * real n\<rfloor>" by simp
  from assms have "r * real n < real n" by simp
  then show "\<lfloor>r * real n\<rfloor> < int n" by (simp add: floor_less_iff)
qed

lemma chooseRandomPokemon_empty:
  "availablePokemon s = [] \<Longrightarrow> chooseRandomPokemon r s = s"
  by (simp add: chooseRandomPokemon_def)

lemma chooseRandomPokemon_draw:
  assumes "0 \<le> r" "r < 1" "availablePokemon s \<noteq> []"
  shows "nat \<lfloor>r * real (length (availablePokemon s))\<rfloor> < length (availablePokemon s)
         \<and> chooseRandomPokemon r s =
             chooseIdentity (id' (availablePokemon s ! nat \<lfloor>r * real (length (availablePokemon s))\<rfloor>)) s"
proof -
  from assms(3) have n: "0 < length (availablePokemon s)" by simp
  from randomIndex_in_range[OF assms(1,2) n]
  have lo: "0 \<le> \<lfloor>r * real (length (availablePokemon s))\<rfloor>"
    and hi: "\<lfloor>r * real (length (availablePokemon s))\<rfloor> < int (length (availablePokemon s))"
    by blast+
  from lo hi have "nat \<lfloor>r * real (length (availablePokemon s))\<rfloor> < length (availablePokemon s)"
    by linarith
  moreover from lo hi assms(3)
  have "chooseRandomPokemon r s =
          chooseIdentity (id' (availablePokemon s ! nat \<lfloor>r * real (length (availablePokemon s))\<rfloor>)) s"
    unfolding chooseRandomPokemon_def Let_def by simp
  ultimately show ?thesis by blast
qed

text \<open>
  Claim C5. For a number \<open>r\<close> that \<^verbatim>\<open>Math.random()\<close> can return, \<^verbatim>\<open>chooseRandomPokemon\<close>
  leaves the state as it is when no displayed record is enabled; otherwise it is
  \<^verbatim>\<open>chooseIdentity\<close> for the id of a displayed record that is not disabled; and when exactly
  one record is eligible it is \<^verbatim>\<open>chooseIdentity\<close> for that record's id, which chooses it,
  or un-chooses it when it is the chosen one already.
\<close>

theorem chooseRandom_eligible:
  assumes "0 \<le> r" and "r < 1"
  shows "(availablePokemon s = [] \<longrightarrow> chooseRandomPokemon r s = s)
       \<and> (availablePokemon s \<noteq> [] \<longrightarrow>
            (\<exists>p. p \<in> set (displayedPokemon s) \<and> id' p \<notin> set (disabledPokemon s)
                 \<and> chooseRandomPokemon r s = chooseIdentity (id' p) s))
       \<and> (\<forall>p. availablePokemon s = [p] \<longrightarrow>
            chooseRandomPokemon r s = chooseIdentity (id' p) s
            \<and> chosenPokemonId (chooseRandomPokemon r s) =
                 (if chosenPokemonId s = Some (id' p) then None else Some (id' p)))"
proof (intro conjI impI allI)
  assume "availablePokemon s = []"
  then show "chooseRandomPokemon r s = s" by (rule chooseRandomPokemon_empty)
next
  assume ne: "availablePokemon s \<noteq> []"
  let ?i = "nat \<lfloor>r * real (length (availablePokemon s))\<rfloor>"
  from chooseRandomPokemon_draw[OF assms ne]
  have i: "?i < length (availablePokemon s)"
    and eq: "chooseRandomPokemon r s = chooseIdentity (id' (availablePokemon s ! ?i)) s"
    by simp_all
  from i have "availablePokemon s ! ?i \<in> set (availablePokemon s)" by (rule nth_mem)
  then have "availablePokemon s ! ?i \<in> set (displayedPokemon s)"
    and "id' (availablePokemon s ! ?i) \<notin> set (disabledPokemon s)"
    by (simp_all add: availablePokemon_def)
  with eq show "\<exists>p. p \<in> set (displayedPokemon s) \<and> id' p \<notin> set (disabledPokemon s)
                 \<and> chooseRandomPokemon r s = chooseIdentity (id' p) s"
    by blast
next
  fix p assume one: "availablePokemon s = [p]"
  then have ne: "availablePokemon s \<noteq> []" by simp
  from chooseRandomPokemon_draw[OF assms ne] one
  show "chooseRandomPokemon r s = chooseIdentity (id' p) s" by simp
  then show "chosenPokemonId (chooseRandomPokemon r s) =
                 (if chosenPokemonId s = Some (id' p) then None else Some (id' p))"
    by (simp add: chooseIdentity_def)
qed

theorem chooseRandom_eligible_witness:
  "chooseRandomPokemon (1 / 2) (exampleState\<lparr>displayedPokemon := []\<rparr>)
     = exampleState\<lparr>displayedPokemon := []\<rparr>
   \<and> chosenPokemonId (chooseRandomPokemon (1 / 2)
        (exampleState\<lparr>displayedPokemon := [charmander, togepi], disabledPokemon := [4]\<rparr>)) = Some 175
   \<and> chosenPokemonId (chooseRandomPokemon (1 / 2)
        (exampleState\<lparr>displayedPokemon := [charmander, togepi], disabledPokemon := [4],
                      chosenPokemonId := Some 175\<rparr>)) = None"
  using chooseRandom_eligible [of "1 / 2" "exampleState\<lparr>displayedPokemon := []\<rparr>"]
    chooseRandom_eligible [of "1 / 2"
      "exampleState\<lparr>displayedPokemon := [charmander, togepi], disabledPokemon := [4]\<rparr>"]
    chooseRandom_eligible [of "1 / 2"
      "exampleState\<lparr>displayedPokemon := [charmander, togepi], disabledPokemon := [4],
                      chosenPokemonId := Some 175\<rparr>"]
  by (simp add: availablePokemon_def chooseRandomPokemon_def chooseIdentity_def example_defs)

section \<open>Properties of the filter state\<close>

subsection \<open>Include and exclude sets stay disjoint\<close>

lemma Set_add_set [simp]: "set (Set_add x xs) = insert x (set xs)"
  by (auto simp: Set_add_def)

lemma Set_delete_set [simp]: "set (Set_delete x xs) = set xs - {x}"
  by (simp add: Set_delete_def)

lemma disjoint_toggle:
  "A \<inter> B = {} \<Longrightarrow> x \<notin> B \<Longrightarrow> insert x A \<inter> B = {}"
  "A \<inter> B = {} \<Longrightarrow> (A - {x}) \<inter> insert x B = {}"
  "A \<inter> B = {} \<Longrightarrow> A \<inter> (B - {x}) = {}"
  by auto

lemma disjoint_onGenerationClick:
  "disjointFilters (currentFilters s) \<Longrightarrow> disjointFilters (currentFilters (onGenerationClick b s))"
  by (cases b) (auto simp add: onGenerationClick_def filterPokemon_keeps Let_def disjointFilters_def)

lemma disjoint_onTypeClick:
  "disjointFilters (currentFilters s) \<Longrightarrow> disjointFilters (currentFilters (onTypeClick b s))"
  by (cases b) (auto simp add: onTypeClick_def filterPokemon_keeps Let_def disjointFilters_def)

lemma disjoint_onEvolutionClick:
  "disjointFilters (currentFilters s) \<Longrightarrow> disjointFilters (currentFilters (onEvolutionClick b s))"
  by (cases b) (auto simp add: onEvolutionClick_def filterPokemon_keeps Let_def disjointFilters_def)

lemma disjoint_onSpecialClick:
  "disjointFilters (currentFilters s) \<Longrightarrow> disjointFilters (currentFilters (onSpecialClick c s))"
  by (auto simp add: onSpecialClick_def filterPokemon_keeps Let_def disjointFilters_def)

lemma disjoint_onColorClick:
  "disjointFilters (currentFilters s) \<Longrightarrow> disjointFilters (currentFilters (onColorClick c s))"
  by (auto simp add: onColorClick_def filterPokemon_keeps Let_def disjointFilters_def)


lemma disjoint_onTypeCountToggle:
  "filterInvariant (currentFilters s) \<Longrightarrow> filterInvariant (currentFilters (onTypeCountToggle s))"
  by (simp add: onTypeCountToggle_def filterPokemon_keeps Let_def disjointFilters_def filterInvariant_def)

lemma notTypeCount_unchanged:
  "notTypeCount (currentFilters (onGenerationClick bn s)) = notTypeCount (currentFilters s)"
  "notTypeCount (currentFilters (onTypeClick bs s)) = notTypeCount (currentFilters s)"
  "notTypeCount (currentFilters (onEvolutionClick bn s)) = notTypeCount (currentFilters s)"
  "notTypeCount (currentFilters (onSpecialClick c s)) = notTypeCount (currentFilters s)"
  "notTypeCount (currentFilters (onColorClick c s)) = notTypeCount (currentFilters s)"
  by (simp_all add: onGenerationClick_def onTypeClick_def onEvolutionClick_def onSpecialClick_def
      onColorClick_def filterPokemon_keeps Let_def split: button.split)

lemma currentFilters_unchanged:
  "currentFilters (onLanguageSelect l s) = currentFilters s"
  "currentFilters (togglePokemon i s) = currentFilters s"
  "currentFilters (chooseIdentity i s) = currentFilters s"
  "currentFilters (chooseRandomPokemon r s) = currentFilters s"
  "currentFilters (clearChosen s) = currentFilters s"
  by (simp_all add: onLanguageSelect_def togglePokemon_def chooseIdentity_def
      chooseRandomPokemon_def clearChosen_def Let_def)

lemma filterInvariant_empty: "filterInvariant emptyFilters"
  by (simp add: filterInvariant_def disjointFilters_def emptyFilters_def)

lemma filterInvariant_onNameInput:
  "filterInvariant (currentFilters s) \<Longrightarrow> filterInvariant (currentFilters (onNameInput v s))"
  by (simp add: onNameInput_def filterPokemon_keeps filterInvariant_def disjointFilters_def)

lemma filterInvariant_handle:
  "filterInvariant (currentFilters s) \<Longrightarrow> filterInvariant (currentFilters (handle e s))"
proof (cases e)
  case ResetClick
  then show ?thesis by (simp add: filterInvariant_empty currentFilters_reset)
qed (simp_all add: filterInvariant_def notTypeCount_unchanged currentFilters_unchanged
      disjoint_onGenerationClick disjoint_onTypeClick disjoint_onEvolutionClick
      disjoint_onSpecialClick disjoint_onColorClick
      disjoint_onTypeCountToggle[unfolded filterInvariant_def]
      filterInvariant_onNameInput[unfolded filterInvariant_def])

lemma filterInvariant_session:
  "filterInvariant (currentFilters s) \<Longrightarrow> filterInvariant (currentFilters (session es s))"
  unfolding session_def
  by (induction es arbitrary: s) (simp_all add: filterInvariant_handle)

text \<open>
  Claim C6. From a state whose filters are all empty, after any sequence of user
  actions (value buttons, the \<^verbatim>\<open>'all'\<close> buttons, the type-count button, the name box,
  reset and the selection actions) no value is in the include set and in the exclude set
  of the same facet.
\<close>

theorem include_exclude_disjoint:
  assumes "currentFilters s = emptyFilters"
  shows "disjointFilters (currentFilters (session es s))"
proof -
  from assms have "filterInvariant (currentFilters s)" by (simp add: filterInvariant_empty)
  then have "filterInvariant (currentFilters (session es s))" by (rule filterInvariant_session)
  then show ?thesis by (simp add: filterInvariant_def)
qed

theorem include_exclude_disjoint_witness:
  "currentFilters exampleState = emptyFilters
   \<and> disjointFilters (currentFilters (session
        [GenerationClick (Value 1), GenerationClick (Value 1), TypeClick (Value ''fire''),
         ColorClick ''red'', TypeCountToggle, GenerationClick (Value 2)] exampleState))"
  using include_exclude_disjoint [of exampleState
        "[GenerationClick (Value 1), GenerationClick (Value 1), TypeClick (Value ''fire''),
         ColorClick ''red'', TypeCountToggle, GenerationClick (Value 2)]"]
  by (simp add: example_defs)

subsection \<open>The three states of a facet value\<close>

lemma removeAll_snoc: "v \<notin> set A \<Longrightarrow> removeAll v (A @ [v]) = A"
  by simp

lemma onGenerationClick_cycle:
  assumes "v \<notin> set (generations (currentFilters s))" "v \<notin> set (notGenerations (currentFilters s))"
  shows "currentFilters (onGenerationClick (Value v) s) =
           (currentFilters s)\<lparr>generations := generations (currentFilters s) @ [v]\<rparr>"
    and "currentFilters (onGenerationClick (Value v) (onGenerationClick (Value v) s)) =
           (currentFilters s)\<lparr>notGenerations := notGenerations (currentFilters s) @ [v]\<rparr>"
    and "currentFilters (onGenerationClick (Value v)
           (onGenerationClick (Value v) (onGenerationClick (Value v) s))) = currentFilters s"
proof -
  show 1: "currentFilters (onGenerationClick (Value v) s) =
           (currentFilters s)\<lparr>generations := generations (currentFilters s) @ [v]\<rparr>"
    using assms by (simp add: onGenerationClick_def Let_def filterPokemon_keeps Set_add_def)
  show 2: "currentFilters (onGenerationClick (Value v) (onGenerationClick (Value v) s)) =
           (currentFilters s)\<lparr>notGenerations := notGenerations (currentFilters s) @ [v]\<rparr>"
    using assms
    by (simp add: onGenerationClick_def[of _ "onGenerationClick (Value v) s"] 1 Let_def
        filterPokemon_keeps Set_add_def Set_delete_def)
  show "currentFilters (onGenerationClick (Value v)
           (onGenerationClick (Value v) (onGenerationClick (Value v) s))) = currentFilters s"
    using assms
    by (simp add: onGenerationClick_def[of _ "onGenerationClick (Value v) (onGenerationClick (Value v) s)"]
        2 Let_def filterPokemon_keeps Set_add_def Set_delete_def)
qed

lemma onTypeClick_cycle:
  assumes "v \<notin> set (typesF (currentFilters s))" "v \<notin> set (notTypes (currentFilters s))"
  shows "currentFilters (onTypeClick (Value v) s) =
           (currentFilters s)\<lparr>typesF := typesF (currentFilters s) @ [v]\<rparr>"
    and "currentFilters (onTypeClick (Value v) (onTypeClick (Value v) s)) =
           (currentFilters s)\<lparr>notTypes := notTypes (currentFilters s) @ [v]\<rparr>"
    and "currentFilters (onTypeClick (Value v)
           (onTypeClick (Value v) (onTypeClick (Value v) s))) = currentFilters s"
proof -
  show 1: "currentFilters (onTypeClick (Value v) s) =
           (currentFilters s)\<lparr>typesF := typesF (currentFilters s) @ [v]\<rparr>"
    using assms by (simp add: onTypeClick_def Let_def filterPokemon_keeps Set_add_def)
  show 2: "currentFilters (onTypeClick (Value v) (onTypeClick (Value v) s)) =
           (currentFilters s)\<lparr>notTypes := notTypes (currentFilters s) @ [v]\<rparr>"
    using assms
    by (simp add: onTypeClick_def[of _ "onTypeClick (Value v) s"] 1 Let_def
        filterPokemon_keeps Set_add_def Set_delete_def)
  show "currentFilters (onTypeClick (Value v)
           (onTypeClick (Value v) (onTypeClick (Value v) s))) = currentFilters s"
    using assms
    by (simp add: onTypeClick_def[of _ "onTypeClick (Value v) (onTypeClick (Value v) s)"]
        2 Let_def filterPokemon_keeps Set_add_def Set_delete_def)
qed

lemma onEvolutionClick_cycle:
  assumes "v \<notin> set (evolutionStages (currentFilters s))" "v \<notin> set (notEvolutionStages (currentFilters s))"
  shows "currentFilters (onEvolutionClick (Value v) s) =
           (currentFilters s)\<lparr>evolutionStages := evolutionStages (currentFilters s) @ [v]\<rparr>"
    and "currentFilters (onEvolutionClick (Value v) (onEvolutionClick (Value v) s)) =
           (currentFilters s)\<lparr>notEvolutionStages := notEvolutionStages (currentFilters s) @ [v]\<rparr>"
    and "currentFilters (onEvolutionClick (Value v)
           (onEvolutionClick (Value v) (onEvolutionClick (Value v) s))) = currentFilters s"
proof -
  show 1: "currentFilters (onEvolutionClick (Value v) s) =
           (currentFilters s)\<lparr>evolutionStages := evolutionStages (currentFilters s) @ [v]\<rparr>"
    using assms by (simp add: onEvolutionClick_def Let_def filterPokemon_keeps Set_add_def)
  show 2: "currentFilters (onEvolutionClick (Value v) (onEvolutionClick (Value v) s)) =
           (currentFilters s)\<lparr>notEvolutionStages := notEvolutionStages (currentFilters s) @ [v]\<rparr>"
    using assms
    by (simp add: onEvolutionClick_def[of _ "onEvolutionClick (Value v) s"] 1 Let_def
        filterPokemon_keeps Set_add_def Set_delete_def)
  show "currentFilters (onEvolutionClick (Value v)
           (onEvolutionClick (Value v) (onEvolutionClick (Value v) s))) = currentFilters s"
    using assms
    by (simp add: onEvolutionClick_def[of _ "onEvolutionClick (Value v) (onEvolutionClick (Value v) s)"]
        2 Let_def filterPokemon_keeps Set_add_def Set_delete_def)
qed

lemma onSpecialClick_cycle:
  assumes "v \<notin> set (specialCategories (currentFilters s))" "v \<notin> set (notSpecialCategories (currentFilters s))"
  shows "currentFilters (onSpecialClick v s) =
           (currentFilters s)\<lparr>specialCategories := specialCategories (currentFilters s) @ [v]\<rparr>"
    and "currentFilters (onSpecialClick v (onSpecialClick v s)) =
           (currentFilters s)\<lparr>notSpecialCategories := notSpecialCategories (currentFilters s) @ [v]\<rparr>"
    and "currentFilters (onSpecialClick v
           (onSpecialClick v (onSpecialClick v s))) = currentFilters s"
proof -
  show 1: "currentFilters (onSpecialClick v s) =
           (currentFilters s)\<lparr>specialCategories := specialCategories (currentFilters s) @ [v]\<rparr>"
    using assms by (simp add: onSpecialClick_def Let_def filterPokemon_keeps Set_add_def)
  show 2: "currentFilters (onSpecialClick v (onSpecialClick v s)) =
           (currentFilters s)\<lparr>notSpecialCategories := notSpecialCategories (currentFilters s) @ [v]\<rparr>"
    using assms
    by (simp add: onSpecialClick_def[of _ "onSpecialClick v s"] 1 Let_def
        filterPokemon_keeps Set_add_def Set_delete_def)
  show "currentFilters (onSpecialClick v
           (onSpecialClick v (onSpecialClick v s))) = currentFilters s"
    using assms
    by (simp add: onSpecialClick_def[of _ "onSpecialClick v (onSpecialClick v s)"]
        2 Let_def filterPokemon_keeps Set_add_def Set_delete_def)
qed

lemma onColorClick_cycle:
  assumes "v \<notin> set (colors (currentFilters s))" "v \<notin> set (notColors (currentFilters s))"
  shows "currentFilters (onColorClick v s) =
           (currentFilters s)\<lparr>colors := colors (currentFilters s) @ [v]\<rparr>"
    and "currentFilters (onColorClick v (onColorClick v s)) =
           (currentFilters s)\<lparr>notColors := notColors (currentFilters s) @ [v]\<rparr>"
    and "currentFilters (onColorClick v
           (onColorClick v (onColorClick v s))) = currentFilters s"
proof -
  show 1: "currentFilters (onColorClick v s) =
           (currentFilters s)\<lparr>colors := colors (currentFilters s) @ [v]\<rparr>"
    using assms by (simp add: onColorClick_def Let_def filterPokemon_keeps Set_add_def)
  show 2: "currentFilters (onColorClick v (onColorClick v s)) =
           (currentFilters s)\<lparr>notColors := notColors (currentFilters s) @ [v]\<rparr>"
    using assms
    by (simp add: onColorClick_def[of _ "onColorClick v s"] 1 Let_def
        filterPokemon_keeps Set_add_def Set_delete_def)
  show "currentFilters (onColorClick v
           (onColorClick v (onColorClick v s))) = currentFilters s"
    using assms
    by (simp add: onColorClick_def[of _ "onColorClick v (onColorClick v s)"]
        2 Let_def filterPokemon_keeps Set_add_def Set_delete_def)
qed

lemma filterPokemon0_keeps:
  "currentFilters0 (filterPokemon0 s) = currentFilters0 s"
  "allPokemon0 (filterPokemon0 s) = allPokemon0 s"
  by (simp_all add: filterPokemon0_def Let_def)

lemma onGenerationClick0_cycle:
  assumes "v \<notin> set (generations0 (currentFilters0 s))" "v \<notin> set (notGenerations0 (currentFilters0 s))"
    and "generationMode0 (currentFilters0 s) = ''single'' \<longrightarrow>
           generations0 (currentFilters0 s) = [] \<and> notGenerations0 (currentFilters0 s) = []"
  shows "currentFilters0 (onGenerationClick0 (Value v) s) =
           (currentFilters0 s)\<lparr>generations0 := generations0 (currentFilters0 s) @ [v]\<rparr>"
    and "currentFilters0 (onGenerationClick0 (Value v) (onGenerationClick0 (Value v) s)) =
           (currentFilters0 s)\<lparr>notGenerations0 := notGenerations0 (currentFilters0 s) @ [v]\<rparr>"
    and "currentFilters0 (onGenerationClick0 (Value v)
           (onGenerationClick0 (Value v) (onGenerationClick0 (Value v) s))) = currentFilters0 s"
proof -
  show 1: "currentFilters0 (onGenerationClick0 (Value v) s) =
           (currentFilters0 s)\<lparr>generations0 := generations0 (currentFilters0 s) @ [v]\<rparr>"
    using assms by (simp add: onGenerationClick0_def Let_def filterPokemon0_keeps Set_add_def)
  show 2: "currentFilters0 (onGenerationClick0 (Value v) (onGenerationClick0 (Value v) s)) =
           (currentFilters0 s)\<lparr>notGenerations0 := notGenerations0 (currentFilters0 s) @ [v]\<rparr>"
    using assms
    by (simp add: onGenerationClick0_def[of _ "onGenerationClick0 (Value v) s"] 1 Let_def
        filterPokemon0_keeps Set_add_def Set_delete_def)
  show "currentFilters0 (onGenerationClick0 (Value v)
           (onGenerationClick0 (Value v) (onGenerationClick0 (Value v) s))) = currentFilters0 s"
    using assms
    by (simp add: onGenerationClick0_def[of _ "onGenerationClick0 (Value v) (onGenerationClick0 (Value v) s)"]
        2 Let_def filterPokemon0_keeps Set_add_def Set_delete_def)
qed

lemma onTypeClick0_cycle:
  assumes "v \<notin> set (typesF0 (currentFilters0 s))" "v \<notin> set (notTypes0 (currentFilters0 s))"
  shows "currentFilters0 (onTypeClick0 (Value v) s) =
           (currentFilters0 s)\<lparr>typesF0 := typesF0 (currentFilters0 s) @ [v]\<rparr>"
    and "currentFilters0 (onTypeClick0 (Value v) (onTypeClick0 (Value v) s)) =
           (currentFilters0 s)\<lparr>notTypes0 := notTypes0 (currentFilters0 s) @ [v]\<rparr>"
    and "currentFilters0 (onTypeClick0 (Value v)
           (onTypeClick0 (Value v) (onTypeClick0 (Value v) s))) = currentFilters0 s"
proof -
  show 1: "currentFilters0 (onTypeClick0 (Value v) s) =
           (currentFilters0 s)\<lparr>typesF0 := typesF0 (currentFilters0 s) @ [v]\<rparr>"
    using assms by (simp add: onTypeClick0_def Let_def filterPokemon0_keeps Set_add_def)
  show 2: "currentFilters0 (onTypeClick0 (Value v) (onTypeClick0 (Value v) s)) =
           (currentFilters0 s)\<lparr>notTypes0 := notTypes0 (currentFilters0 s) @ [v]\<rparr>"
    using assms
    by (simp add: onTypeClick0_def[of _ "onTypeClick0 (Value v) s"] 1 Let_def
        filterPokemon0_keeps Set_add_def Set_delete_def)
  show "currentFilters0 (onTypeClick0 (Value v)
           (onTypeClick0 (Value v) (onTypeClick0 (Value v) s))) = currentFilters0 s"
    using assms
    by (simp add: onTypeClick0_def[of _ "onTypeClick0 (Value v) (onTypeClick0 (Value v) s)"]
        2 Let_def filterPokemon0_keeps Set_add_def Set_delete_def)
qed

lemma handle_cycle:
  assumes "unselected e (currentFilters s)"
  shows "included e (currentFilters (handle e s))
       \<and> excluded e (currentFilters (handle e (handle e s)))
       \<and> currentFilters (handle e (handle e (handle e s))) = currentFilters s"
proof (cases e)
  case (GenerationClick b)
  with assms obtain v where b: "b = Value v" by (cases b) (simp_all add: unselected_def)
  from assms GenerationClick b
  have u: "v \<notin> set (generations (currentFilters s))" "v \<notin> set (notGenerations (currentFilters s))"
    by (simp_all add: unselected_def)
  show ?thesis
    using u by (simp add: GenerationClick b included_def excluded_def onGenerationClick_cycle[OF u])
next
  case (TypeClick b)
  with assms obtain v where b: "b = Value v" by (cases b) (simp_all add: unselected_def)
  from assms TypeClick b
  have u: "v \<notin> set (typesF (currentFilters s))" "v \<notin> set (notTypes (currentFilters s))"
    by (simp_all add: unselected_def)
  show ?thesis
    using u by (simp add: TypeClick b included_def excluded_def onTypeClick_cycle[OF u])
next
  case (EvolutionClick b)
  with assms obtain v where b: "b = Value v" by (cases b) (simp_all add: unselected_def)
  from assms EvolutionClick b
  have u: "v \<notin> set (evolutionStages (currentFilters s))"
    "v \<notin> set (notEvolutionStages (currentFilters s))"
    by (simp_all add: unselected_def)
  show ?thesis
    using u by (simp add: EvolutionClick b included_def excluded_def onEvolutionClick_cycle[OF u])
next
  case (SpecialClick v)
  from assms SpecialClick
  have u: "v \<notin> set (specialCategories (currentFilters s))"
    "v \<notin> set (notSpecialCategories (currentFilters s))"
    by (simp_all add: unselected_def)
  show ?thesis
    using u by (simp add: SpecialClick included_def excluded_def onSpecialClick_cycle[OF u])
next
  case (ColorClick v)
  from assms ColorClick
  have u: "v \<notin> set (colors (currentFilters s))" "v \<notin> set (notColors (currentFilters s))"
    by (simp_all add: unselected_def)
  show ?thesis
    using u by (simp add: ColorClick included_def excluded_def onColorClick_cycle[OF u])
qed (use assms in \<open>simp_all add: unselected_def\<close>)

lemma onTypeCountToggle_step:
  "typeCountState s = ''both'' \<Longrightarrow>
     currentFilters (onTypeCountToggle s) = (currentFilters s)\<lparr>typeCount := [''single'']\<rparr>
     \<and> typeCountState (onTypeCountToggle s) = ''single''"
  "typeCountState s = ''single'' \<Longrightarrow>
     currentFilters (onTypeCountToggle s) = (currentFilters s)\<lparr>typeCount := [''dual'']\<rparr>
     \<and> typeCountState (onTypeCountToggle s) = ''dual''"
  "typeCountState s = ''dual'' \<Longrightarrow>
     currentFilters (onTypeCountToggle s) = (currentFilters s)\<lparr>typeCount := []\<rparr>
     \<and> typeCountState (onTypeCountToggle s) = ''both''"
  by (simp_all add: onTypeCountToggle_def Let_def filterPokemon_keeps Set_add_def)

lemma onTypeCountToggle_cycle:
  assumes "typeCountState s = ''both''"
  shows "currentFilters (onTypeCountToggle s) = (currentFilters s)\<lparr>typeCount := [''single'']\<rparr>"
    and "currentFilters (onTypeCountToggle (onTypeCountToggle s)) =
           (currentFilters s)\<lparr>typeCount := [''dual'']\<rparr>"
    and "currentFilters (onTypeCountToggle (onTypeCountToggle (onTypeCountToggle s))) =
           (currentFilters s)\<lparr>typeCount := []\<rparr>"
    and "typeCountState (onTypeCountToggle (onTypeCountToggle (onTypeCountToggle s))) = ''both''"
proof -
  note 1 = onTypeCountToggle_step(1)[OF assms]
  from 1 have s1: "typeCountState (onTypeCountToggle s) = ''single''" by simp
  note 2 = onTypeCountToggle_step(2)[OF s1]
  from 2 have s2: "typeCountState (onTypeCountToggle (onTypeCountToggle s)) = ''dual''" by simp
  note 3 = onTypeCountToggle_step(3)[OF s2]
  from 1 show "currentFilters (onTypeCountToggle s) = (currentFilters s)\<lparr>typeCount := [''single'']\<rparr>"
    by simp
  from 1 2 show "currentFilters (onTypeCountToggle (onTypeCountToggle s)) =
           (currentFilters s)\<lparr>typeCount := [''dual'']\<rparr>"
    by simp
  from 1 2 3 show "currentFilters (onTypeCountToggle (onTypeCountToggle (onTypeCountToggle s))) =
           (currentFilters s)\<lparr>typeCount := []\<rparr>"
    by simp
  from 3 show "typeCountState (onTypeCountToggle (onTypeCountToggle (onTypeCountToggle s))) = ''both''"
    by simp
qed

text \<open>
  Claim C7, as the code has it. A click on the button of a facet value that is unselected
  includes it, a second click excludes it, and a third click leaves it unselected again
  with the filters exactly as they were before the three clicks, whatever the state of
  the other values. This holds for the generation, type, evolution-stage,
  special-category and color buttons of \<^verbatim>\<open>src/app.js\<close>, and for the generation and type
  buttons of the earlier revision (for its generation buttons in single mode when no
  other generation is selected, since a click in that mode clears the other values).
  The type-count facet has no button for a value: its one button, starting from
  \<^verbatim>\<open>'both'\<close>, sets \<^verbatim>\<open>typeCount\<close> to single only, then to dual only, then to empty, and
  never writes \<^verbatim>\<open>notTypeCount\<close>.
\<close>

theorem tri_state_round_trip:
  "(unselected e (currentFilters s) \<longrightarrow>
      included e (currentFilters (handle e s))
      \<and> excluded e (currentFilters (handle e (handle e s)))
      \<and> unselected e (currentFilters (handle e (handle e (handle e s))))
      \<and> currentFilters (handle e (handle e (handle e s))) = currentFilters s)
   \<and> (g \<notin> set (generations0 (currentFilters0 s0)) \<and> g \<notin> set (notGenerations0 (currentFilters0 s0))
       \<and> (generationMode0 (currentFilters0 s0) = ''single'' \<longrightarrow>
            generations0 (currentFilters0 s0) = [] \<and> notGenerations0 (currentFilters0 s0) = [])
       \<longrightarrow>
         g \<in> set (generations0 (currentFilters0 (onGenerationClick0 (Value g) s0)))
       \<and> g \<in> set (notGenerations0 (currentFilters0
                 (onGenerationClick0 (Value g) (onGenerationClick0 (Value g) s0))))
       \<and> currentFilters0 (onGenerationClick0 (Value g)
            (onGenerationClick0 (Value g) (onGenerationClick0 (Value g) s0))) = currentFilters0 s0)
   \<and> (t \<notin> set (typesF0 (currentFilters0 s0)) \<and> t \<notin> set (notTypes0 (currentFilters0 s0))
       \<longrightarrow>
         t \<in> set (typesF0 (currentFilters0 (onTypeClick0 (Value t) s0)))
       \<and> t \<in> set (notTypes0 (currentFilters0 (onTypeClick0 (Value t) (onTypeClick0 (Value t) s0))))
       \<and> currentFilters0 (onTypeClick0 (Value t)
            (onTypeClick0 (Value t) (onTypeClick0 (Value t) s0))) = currentFilters0 s0)
   \<and> (typeCountState s = ''both'' \<longrightarrow>
         currentFilters (handle TypeCountToggle s) = (currentFilters s)\<lparr>typeCount := [''single'']\<rparr>
       \<and> currentFilters (handle TypeCountToggle (handle TypeCountToggle s))
           = (currentFilters s)\<lparr>typeCount := [''dual'']\<rparr>
       \<and> currentFilters (handle TypeCountToggle (handle TypeCountToggle (handle TypeCountToggle s)))
           = (currentFilters s)\<lparr>typeCount := []\<rparr>
       \<and> typeCountState (handle TypeCountToggle (handle TypeCountToggle (handle TypeCountToggle s)))
           = ''both'')"
proof (intro conjI impI)
  assume b: "typeCountState s = ''both''"
  from onTypeCountToggle_cycle[OF b]
  show "currentFilters (handle TypeCountToggle s) = (currentFilters s)\<lparr>typeCount := [''single'']\<rparr>"
    and "currentFilters (handle TypeCountToggle (handle TypeCountToggle s))
           = (currentFilters s)\<lparr>typeCount := [''dual'']\<rparr>"
    and "currentFilters (handle TypeCountToggle (handle TypeCountToggle (handle TypeCountToggle s)))
           = (currentFilters s)\<lparr>typeCount := []\<rparr>"
    and "typeCountState (handle TypeCountToggle (handle TypeCountToggle (handle TypeCountToggle s)))
           = ''both''"
    by simp_all
next
  assume u: "unselected e (currentFilters s)"
  from handle_cycle[OF u]
  show "included e (currentFilters (handle e s))"
    and "excluded e (currentFilters (handle e (handle e s)))"
    and eq: "currentFilters (handle e (handle e (handle e s))) = currentFilters s"
    by simp_all
  from u eq show "unselected e (currentFilters (handle e (handle e (handle e s))))" by simp
next
  assume a: "g \<notin> set (generations0 (currentFilters0 s0)) \<and> g \<notin> set (notGenerations0 (currentFilters0 s0))
       \<and> (generationMode0 (currentFilters0 s0) = ''single'' \<longrightarrow>
            generations0 (currentFilters0 s0) = [] \<and> notGenerations0 (currentFilters0 s0) = [])"
  then have u: "g \<notin> set (generations0 (currentFilters0 s0))"
    "g \<notin> set (notGenerations0 (currentFilters0 s0))"
    "generationMode0 (currentFilters0 s0) = ''single'' \<longrightarrow>
            generations0 (currentFilters0 s0) = [] \<and> notGenerations0 (currentFilters0 s0) = []"
    by simp_all
  show "g \<in> set (generations0 (currentFilters0 (onGenerationClick0 (Value g) s0)))"
    by (simp add: onGenerationClick0_cycle(1)[OF u])
  show "g \<in> set (notGenerations0 (currentFilters0
                 (onGenerationClick0 (Value g) (onGenerationClick0 (Value g) s0))))"
    by (simp add: onGenerationClick0_cycle(2)[OF u])
  show "currentFilters0 (onGenerationClick0 (Value g)
            (onGenerationClick0 (Value g) (onGenerationClick0 (Value g) s0))) = currentFilters0 s0"
    by (rule onGenerationClick0_cycle(3)[OF u])
next
  assume "t \<notin> set (typesF0 (currentFilters0 s0)) \<and> t \<notin> set (notTypes0 (currentFilters0 s0))"
  then have u: "t \<notin> set (typesF0 (currentFilters0 s0))" "t \<notin> set (notTypes0 (currentFilters0 s0))"
    by simp_all
  show "t \<in> set (typesF0 (currentFilters0 (onTypeClick0 (Value t) s0)))"
    by (simp add: onTypeClick0_cycle(1)[OF u])
  show "t \<in> set (notTypes0 (currentFilters0 (onTypeClick0 (Value t) (onTypeClick0 (Value t) s0))))"
    by (simp add: onTypeClick0_cycle(2)[OF u])
  show "currentFilters0 (onTypeClick0 (Value t)
            (onTypeClick0 (Value t) (onTypeClick0 (Value t) s0))) = currentFilters0 s0"
    by (rule onTypeClick0_cycle(3)[OF u])
qed

theorem tri_state_round_trip_witness:
  "unselected (ColorClick ''red'') (currentFilters exampleState)
   \<and> included (ColorClick ''red'') (currentFilters (handle (ColorClick ''red'') exampleState))
   \<and> excluded (ColorClick ''red'')
        (currentFilters (handle (ColorClick ''red'') (handle (ColorClick ''red'') exampleState)))
   \<and> currentFilters (handle (ColorClick ''red'')
        (handle (ColorClick ''red'') (handle (ColorClick ''red'') exampleState)))
      = currentFilters exampleState
   \<and> currentFilters0 (onGenerationClick0 (Value 2)
        (onGenerationClick0 (Value 2) (onGenerationClick0 (Value 2) exampleState0)))
      = currentFilters0 exampleState0
   \<and> currentFilters0 (onTypeClick0 (Value ''fire'')
        (onTypeClick0 (Value ''fire'') (onTypeClick0 (Value ''fire'') exampleState0)))
      = currentFilters0 exampleState0
   \<and> typeCount (currentFilters (handle TypeCountToggle exampleState)) = [''single'']
   \<and> currentFilters (handle TypeCountToggle
        (handle TypeCountToggle (handle TypeCountToggle exampleState)))
      = currentFilters exampleState"
  using tri_state_round_trip [of "ColorClick ''red''" exampleState 2 exampleState0 "''fire''"]
  by (simp add: unselected_def example_defs example0_defs)

text \<open>
  The type-count button on the example state: the value single is included after one
  click and is unselected, not excluded, after two. After a click and a reset, which
  leaves \<^verbatim>\<open>typeCountState\<close> at \<^verbatim>\<open>'single'\<close>, three clicks end with single included.
\<close>

lemma typeCountState_reset: "typeCountState (resetAllPokemon s) = typeCountState s"
  by (simp add: resetAllPokemon_def filterPokemon_keeps)

theorem typeCount_has_no_excluded_state:
  "typeCount (currentFilters exampleState) = []
   \<and> notTypeCount (currentFilters exampleState) = []
   \<and> typeCount (currentFilters (handle TypeCountToggle exampleState)) = [''single'']
   \<and> typeCount (currentFilters (handle TypeCountToggle (handle TypeCountToggle exampleState)))
       = [''dual'']
   \<and> notTypeCount (currentFilters (handle TypeCountToggle (handle TypeCountToggle exampleState)))
       = []
   \<and> typeCount (currentFilters (handle ResetClick (handle TypeCountToggle exampleState))) = []
   \<and> typeCount (currentFilters
        (handle TypeCountToggle (handle TypeCountToggle (handle TypeCountToggle
           (handle ResetClick (handle TypeCountToggle exampleState)))))) = [''single'']"
proof -
  have b: "typeCountState exampleState = ''both''" by (simp add: example_defs)
  have f: "typeCount (currentFilters exampleState) = []"
    "notTypeCount (currentFilters exampleState) = []"
    by (simp_all add: example_defs)
  let ?r = "resetAllPokemon (onTypeCountToggle exampleState)"
  from onTypeCountToggle_step(1)[OF b]
  have r0: "typeCountState ?r = ''single''" by (simp add: typeCountState_reset)
  have rf: "currentFilters ?r = emptyFilters" by (rule currentFilters_reset)
  note r1 = onTypeCountToggle_step(2)[OF r0]
  from r1 have s1: "typeCountState (onTypeCountToggle ?r) = ''dual''" by simp
  note r2 = onTypeCountToggle_step(3)[OF s1]
  from r2 have s2: "typeCountState (onTypeCountToggle (onTypeCountToggle ?r)) = ''both''" by simp
  note r3 = onTypeCountToggle_step(1)[OF s2]
  from r3 have after:
    "typeCount (currentFilters (onTypeCountToggle (onTypeCountToggle (onTypeCountToggle ?r))))
       = [''single'']"
    by simp
  from rf have before: "typeCount (currentFilters ?r) = []" by (simp add: emptyFilters_def)
  from onTypeCountToggle_cycle(1,2)[OF b] f before after show ?thesis by simp
qed

section \<open>Properties of the earlier revision\<close>

subsection \<open>The type mode\<close>

lemmas facet0_defs = byName0_def byGeneration0_def notGeneration0_def byType0_def notType0_def

lemma if_filter: "(if m then filter A xs else filter B xs) = filter (\<lambda>x. if m then A x else B x) xs"
  by simp

lemma filterPokemon0_matches:
  "filterPokemon0 s =
     s\<lparr>displayedPokemon0 := filter (matchesFilters0 (currentFilters0 s)) (allPokemon0 s)\<rparr>"
  unfolding filterPokemon0_def Let_def if_filter guarded_filter filter_filter matchesFilters0_def
    facet0_defs
  by (simp only: conj_assoc)

lemma displayed_filterPokemon0:
  "displayedPokemon0 (filterPokemon0 s) = filter (matchesFilters0 (currentFilters0 s)) (allPokemon0 s)"
  by (simp add: filterPokemon0_matches)

lemma byType0_or:
  "mode \<noteq> ''and'' \<Longrightarrow> ts \<noteq> [] \<Longrightarrow> byType0 mode ts p \<longleftrightarrow> (\<exists>t \<in> set (types0 p). t \<in> set ts)"
  by (simp add: byType0_def list_ex_iff)

lemma byType0_and:
  "ts \<noteq> [] \<Longrightarrow> byType0 ''and'' ts p \<longleftrightarrow> (\<forall>t \<in> set ts. t \<in> set (types0 p))"
  by (simp add: byType0_def list_all_iff)

lemma matchesFilters0_types:
  "matchesFilters0 f p \<longleftrightarrow>
     byType0 (typeMode0 f) (typesF0 f) p \<and> matchesFilters0 (f\<lparr>typesF0 := []\<rparr>) p"
  by (auto simp add: matchesFilters0_def byType0_def)

lemma displayed0_types:
  "p \<in> set (displayedPokemon0 (filterPokemon0 s)) \<longleftrightarrow>
     byType0 (typeMode0 (currentFilters0 s)) (typesF0 (currentFilters0 s)) p
     \<and> p \<in> set (displayedPokemon0
           (filterPokemon0 (s\<lparr>currentFilters0 := (currentFilters0 s)\<lparr>typesF0 := []\<rparr>\<rparr>)))"
  using matchesFilters0_types[of "currentFilters0 s" p]
  by (simp add: displayed_filterPokemon0) blast

lemma byType_all: "ts \<noteq> [] \<Longrightarrow> byType ts p \<longleftrightarrow> (\<forall>t \<in> set ts. t \<in> set (types p))"
  by (simp add: byType_def list_all_iff)

lemma matchesFilters_types:
  "matchesFilters lang f p \<longleftrightarrow> byType (typesF f) p \<and> matchesFilters lang (f\<lparr>typesF := []\<rparr>) p"
  by (auto simp add: matchesFilters_def byType_def)

lemma displayed_types:
  "p \<in> set (displayedPokemon (filterPokemon s)) \<longleftrightarrow>
     byType (typesF (currentFilters s)) p
     \<and> p \<in> set (displayedPokemon
           (filterPokemon (s\<lparr>currentFilters := (currentFilters s)\<lparr>typesF := []\<rparr>\<rparr>)))"
  using matchesFilters_types[of "currentLanguage s" "currentFilters s" p]
  by (simp add: displayed_filterPokemon) blast

text \<open>
  Claim C1. In the revision that has the type mode switch (\<^verbatim>\<open>src/unnamed/part_000\<close>), a
  non-empty type include set displays, of the records that pass the other facets, in
  \<^verbatim>\<open>'or'\<close> mode those with at least one included type and in \<^verbatim>\<open>'and'\<close> mode those with all
  included types. A record whose types are exactly fire is therefore not displayed under
  the include set of fire and flying in \<^verbatim>\<open>'and'\<close> mode, and in \<^verbatim>\<open>'or'\<close> mode it is displayed
  exactly when it passes the other facets. \<^verbatim>\<open>src/app.js\<close> has no mode switch: its type
  include test is the one of the \<^verbatim>\<open>'and'\<close> mode.
\<close>

theorem type_facet_mode:
  "(typesF0 (currentFilters0 s0) \<noteq> [] \<and> typeMode0 (currentFilters0 s0) = ''or'' \<longrightarrow>
      (p0 \<in> set (displayedPokemon0 (filterPokemon0 s0)) \<longleftrightarrow>
         (\<exists>t \<in> set (types0 p0). t \<in> set (typesF0 (currentFilters0 s0)))
         \<and> p0 \<in> set (displayedPokemon0
               (filterPokemon0 (s0\<lparr>currentFilters0 := (currentFilters0 s0)\<lparr>typesF0 := []\<rparr>\<rparr>)))))
   \<and> (typesF0 (currentFilters0 s0) \<noteq> [] \<and> typeMode0 (currentFilters0 s0) = ''and'' \<longrightarrow>
      (p0 \<in> set (displayedPokemon0 (filterPokemon0 s0)) \<longleftrightarrow>
         (\<forall>t \<in> set (typesF0 (currentFilters0 s0)). t \<in> set (types0 p0))
         \<and> p0 \<in> set (displayedPokemon0
               (filterPokemon0 (s0\<lparr>currentFilters0 := (currentFilters0 s0)\<lparr>typesF0 := []\<rparr>\<rparr>)))))
   \<and> (set (types0 p0) = {''fire''} \<and> set (typesF0 (currentFilters0 s0)) = {''fire'', ''flying''} \<longrightarrow>
        (typeMode0 (currentFilters0 s0) = ''and'' \<longrightarrow>
           p0 \<notin> set (displayedPokemon0 (filterPokemon0 s0)))
      \<and> (typeMode0 (currentFilters0 s0) = ''or'' \<longrightarrow>
           (p0 \<in> set (displayedPokemon0 (filterPokemon0 s0)) \<longleftrightarrow>
            p0 \<in> set (displayedPokemon0
               (filterPokemon0 (s0\<lparr>currentFilters0 := (currentFilters0 s0)\<lparr>typesF0 := []\<rparr>\<rparr>))))))
   \<and> (typesF (currentFilters s) \<noteq> [] \<longrightarrow>
      (p \<in> set (displayedPokemon (filterPokemon s)) \<longleftrightarrow>
         (\<forall>t \<in> set (typesF (currentFilters s)). t \<in> set (types p))
         \<and> p \<in> set (displayedPokemon
               (filterPokemon (s\<lparr>currentFilters := (currentFilters s)\<lparr>typesF := []\<rparr>\<rparr>)))))"
proof (intro conjI impI)
  assume "typesF0 (currentFilters0 s0) \<noteq> [] \<and> typeMode0 (currentFilters0 s0) = ''or''"
  then show "p0 \<in> set (displayedPokemon0 (filterPokemon0 s0)) \<longleftrightarrow>
         (\<exists>t \<in> set (types0 p0). t \<in> set (typesF0 (currentFilters0 s0)))
         \<and> p0 \<in> set (displayedPokemon0
               (filterPokemon0 (s0\<lparr>currentFilters0 := (currentFilters0 s0)\<lparr>typesF0 := []\<rparr>\<rparr>)))"
    using displayed0_types[of p0 s0] by (simp add: byType0_or)
next
  assume "typesF0 (currentFilters0 s0) \<noteq> [] \<and> typeMode0 (currentFilters0 s0) = ''and''"
  then show "p0 \<in> set (displayedPokemon0 (filterPokemon0 s0)) \<longleftrightarrow>
         (\<forall>t \<in> set (typesF0 (currentFilters0 s0)). t \<in> set (types0 p0))
         \<and> p0 \<in> set (displayedPokemon0
               (filterPokemon0 (s0\<lparr>currentFilters0 := (currentFilters0 s0)\<lparr>typesF0 := []\<rparr>\<rparr>)))"
    using displayed0_types[of p0 s0] by (simp add: byType0_and)
next
  assume a: "set (types0 p0) = {''fire''} \<and> set (typesF0 (currentFilters0 s0)) = {''fire'', ''flying''}"
    and m: "typeMode0 (currentFilters0 s0) = ''and''"
  from a have s1: "set (types0 p0) = {''fire''}"
    and s2: "set (typesF0 (currentFilters0 s0)) = {''fire'', ''flying''}" by blast+
  have ne: "typesF0 (currentFilters0 s0) \<noteq> []"
  proof
    assume "typesF0 (currentFilters0 s0) = []"
    with s2 show False by simp
  qed
  have "''flying'' \<in> set (typesF0 (currentFilters0 s0))" by (simp add: s2)
  moreover have "''flying'' \<notin> set (types0 p0)" by (simp add: s1)
  ultimately have "\<not> (\<forall>t \<in> set (typesF0 (currentFilters0 s0)). t \<in> set (types0 p0))" by blast
  with m ne show "p0 \<notin> set (displayedPokemon0 (filterPokemon0 s0))"
    using displayed0_types[of p0 s0] byType0_and[OF ne, of p0] by simp
next
  assume a: "set (types0 p0) = {''fire''} \<and> set (typesF0 (currentFilters0 s0)) = {''fire'', ''flying''}"
    and m: "typeMode0 (currentFilters0 s0) = ''or''"
  from a have s1: "set (types0 p0) = {''fire''}"
    and s2: "set (typesF0 (currentFilters0 s0)) = {''fire'', ''flying''}" by blast+
  have ne: "typesF0 (currentFilters0 s0) \<noteq> []"
  proof
    assume "typesF0 (currentFilters0 s0) = []"
    with s2 show False by simp
  qed
  have "''fire'' \<in> set (typesF0 (currentFilters0 s0))" by (simp add: s2)
  moreover have "''fire'' \<in> set (types0 p0)" by (simp add: s1)
  ultimately have ex: "\<exists>t \<in> set (types0 p0). t \<in> set (typesF0 (currentFilters0 s0))" by blast
  from m have m': "typeMode0 (currentFilters0 s0) \<noteq> ''and''" by simp
  from ex byType0_or[OF m' ne, of p0]
  have "byType0 (typeMode0 (currentFilters0 s0)) (typesF0 (currentFilters0 s0)) p0" by blast
  with displayed0_types[of p0 s0]
  show "p0 \<in> set (displayedPokemon0 (filterPokemon0 s0)) \<longleftrightarrow>
            p0 \<in> set (displayedPokemon0
               (filterPokemon0 (s0\<lparr>currentFilters0 := (currentFilters0 s0)\<lparr>typesF0 := []\<rparr>\<rparr>)))"
    by blast
next
  assume "typesF (currentFilters s) \<noteq> []"
  then show "p \<in> set (displayedPokemon (filterPokemon s)) \<longleftrightarrow>
         (\<forall>t \<in> set (typesF (currentFilters s)). t \<in> set (types p))
         \<and> p \<in> set (displayedPokemon
               (filterPokemon (s\<lparr>currentFilters := (currentFilters s)\<lparr>typesF := []\<rparr>\<rparr>)))"
    using displayed_types[of p s] by (simp add: byType_all)
qed

theorem type_facet_mode_witness:
  "charmander0 \<notin> set (displayedPokemon0 (filterPokemon0
      (exampleState0\<lparr>currentFilters0 :=
         (currentFilters0 exampleState0)\<lparr>typesF0 := [''fire'', ''flying''], typeMode0 := ''and''\<rparr>\<rparr>)))
   \<and> charmander0 \<in> set (displayedPokemon0 (filterPokemon0
      (exampleState0\<lparr>currentFilters0 :=
         (currentFilters0 exampleState0)\<lparr>typesF0 := [''fire'', ''flying''], typeMode0 := ''or''\<rparr>\<rparr>)))
   \<and> charmander \<notin> set (displayedPokemon (filterPokemon
      (exampleState\<lparr>currentFilters := emptyFilters\<lparr>typesF := [''fire'', ''flying'']\<rparr>\<rparr>)))"
  using type_facet_mode [of
      "exampleState0\<lparr>currentFilters0 :=
         (currentFilters0 exampleState0)\<lparr>typesF0 := [''fire'', ''flying''], typeMode0 := ''and''\<rparr>\<rparr>"
      charmander0
      "exampleState\<lparr>currentFilters := emptyFilters\<lparr>typesF := [''fire'', ''flying'']\<rparr>\<rparr>"
      charmander]
    type_facet_mode [of
      "exampleState0\<lparr>currentFilters0 :=
         (currentFilters0 exampleState0)\<lparr>typesF0 := [''fire'', ''flying''], typeMode0 := ''or''\<rparr>\<rparr>"
      charmander0
      "exampleState\<lparr>currentFilters := emptyFilters\<lparr>typesF := [''fire'', ''flying'']\<rparr>\<rparr>"
      charmander]
  by (simp add: example_defs example0_defs displayed_filterPokemon0 matchesFilters0_def facet0_defs
      displayed_filterPokemon matchesFilters_def facet_defs getDisplayName_def)

subsection \<open>The generation mode\<close>

lemma onGenModeToggle0_collapse:
  assumes "generationMode0 (currentFilters0 s) \<noteq> ''single''"
    and "length (generations0 (currentFilters0 s)) + length (notGenerations0 (currentFilters0 s)) > 1"
  shows "currentFilters0 (onGenModeToggle0 s) =
           (currentFilters0 s)
             \<lparr>generationMode0 := ''single'',
              generations0 :=
                (case generations0 (currentFilters0 s) of
                   g # _ \<Rightarrow> if g \<noteq> 0 then [g] else []
                 | [] \<Rightarrow> []),
              notGenerations0 :=
                (case generations0 (currentFilters0 s) of
                   g # _ \<Rightarrow>
                     if g \<noteq> 0 then []
                     else (case notGenerations0 (currentFilters0 s) of
                             n # _ \<Rightarrow> if n \<noteq> 0 then [n] else []
                           | [] \<Rightarrow> [])
                 | [] \<Rightarrow>
                     (case notGenerations0 (currentFilters0 s) of
                        n # _ \<Rightarrow> if n \<noteq> 0 then [n] else []
                      | [] \<Rightarrow> []))\<rparr>"
  using assms
  by (simp add: onGenModeToggle0_def Let_def filterPokemon0_keeps first_def truthyNumber_def
      Set_add_def split: list.split)

text \<open>
  Claim C9. When the generation mode button switches from multiple to single while more
  than one generation is included or excluded, at most one value is kept: the include
  set's first element (the one added first among those it holds) when there is one, and
  otherwise the first element of the exclude set; an included value is thus preferred to
  an excluded one. Generation numbers are not 0 (a 0 would be skipped as falsy).
\<close>

theorem mode_switch_collapse:
  assumes "generationMode0 (currentFilters0 s) = ''multiple''"
    and "length (generations0 (currentFilters0 s)) + length (notGenerations0 (currentFilters0 s)) > 1"
  shows "generationMode0 (currentFilters0 (onGenModeToggle0 s)) = ''single''
       \<and> length (generations0 (currentFilters0 (onGenModeToggle0 s)))
           + length (notGenerations0 (currentFilters0 (onGenModeToggle0 s))) \<le> 1
       \<and> (\<forall>g gs. generations0 (currentFilters0 s) = g # gs \<and> g \<noteq> 0 \<longrightarrow>
             generations0 (currentFilters0 (onGenModeToggle0 s)) = [g]
             \<and> notGenerations0 (currentFilters0 (onGenModeToggle0 s)) = [])
       \<and> (\<forall>n ns. generations0 (currentFilters0 s) = [] \<and> notGenerations0 (currentFilters0 s) = n # ns
                  \<and> n \<noteq> 0 \<longrightarrow>
             generations0 (currentFilters0 (onGenModeToggle0 s)) = []
             \<and> notGenerations0 (currentFilters0 (onGenModeToggle0 s)) = [n])"
proof -
  from assms(1) have m: "generationMode0 (currentFilters0 s) \<noteq> ''single''" by simp
  note c = onGenModeToggle0_collapse[OF m assms(2)]
  show ?thesis
    by (simp add: c split: list.split)
qed

lemma currentFilters0_multipleState0:
  "currentFilters0 multipleState0 =
     (currentFilters0 exampleState0)\<lparr>generationMode0 := ''multiple'', generations0 := [3, 5]\<rparr>"
  by (simp add: multipleState0_def onGenerationClick0_def onGenModeToggle0_def Let_def
      filterPokemon0_keeps Set_add_def example0_defs)

lemma currentFilters0_multipleState0_again:
  "currentFilters0 (onGenerationClick0 (Value 3) multipleState0) =
     (currentFilters0 exampleState0)
       \<lparr>generationMode0 := ''multiple'', generations0 := [5], notGenerations0 := [3]\<rparr>"
  by (simp add: onGenerationClick0_def[of _ multipleState0] currentFilters0_multipleState0 Let_def
      filterPokemon0_keeps Set_add_def Set_delete_def example0_defs)

theorem mode_switch_collapse_witness:
  "generations0 (currentFilters0 multipleState0) = [3, 5]
   \<and> generations0 (currentFilters0 (onGenModeToggle0 multipleState0)) = [3]
   \<and> notGenerations0 (currentFilters0 (onGenModeToggle0 multipleState0)) = []
   \<and> generations0 (currentFilters0 (onGenerationClick0 (Value 3) multipleState0)) = [5]
   \<and> notGenerations0 (currentFilters0 (onGenerationClick0 (Value 3) multipleState0)) = [3]
   \<and> generations0 (currentFilters0 (onGenModeToggle0 (onGenerationClick0 (Value 3) multipleState0))) = [5]
   \<and> notGenerations0 (currentFilters0 (onGenModeToggle0 (onGenerationClick0 (Value 3) multipleState0))) = []"
  using mode_switch_collapse [of multipleState0]
    mode_switch_collapse [of "onGenerationClick0 (Value 3) multipleState0"]
  by (simp add: currentFilters0_multipleState0 currentFilters0_multipleState0_again)

section \<open>Properties of the ingestion pipeline\<close>

lemma concat_makeBatches: "concat (makeBatches i xs) = drop i xs"
proof (induction i xs rule: makeBatches.induct)
  case (1 i xs)
  show ?case
  proof (cases "i < length xs")
    case True
    have "concat (makeBatches i xs) = take BATCH_SIZE (drop i xs) @ drop (i + BATCH_SIZE) xs"
      using True "1.IH" by (subst makeBatches.simps) simp
    also have "\<dots> = drop i xs"
      by (metis add.commute append_take_drop_id drop_drop)
    finally show ?thesis .
  next
    case False
    then show ?thesis by (subst makeBatches.simps) simp
  qed
qed

lemma notNull_append: "notNull (xs @ ys) = notNull xs @ notNull ys"
  by (induction xs rule: notNull.induct) simp_all

lemma set_notNull: "p \<in> set (notNull rs) \<longleftrightarrow> Some p \<in> set rs"
  by (induction rs rule: notNull.induct) auto

lemma fetchPokemonDetails_generationMap:
  "generationMap s = generationMap s' \<Longrightarrow> fetchPokemonDetails src s = fetchPokemonDetails src s'"
  by (rule ext) (simp add: fetchPokemonDetails_def Let_def split: option.split prod.split)

lemma fold_batches:
  "fold (\<lambda>batch s. s\<lparr>allPokemon := allPokemon s @ notNull (map (fetchPokemonDetails src s) batch)\<rparr>)
        batches s
   = s\<lparr>allPokemon := allPokemon s @ notNull (map (fetchPokemonDetails src s) (concat batches))\<rparr>"
proof (induction batches arbitrary: s)
  case Nil
  then show ?case by simp
next
  case (Cons b bs)
  let ?s1 = "s\<lparr>allPokemon := allPokemon s @ notNull (map (fetchPokemonDetails src s) b)\<rparr>"
  have g: "fetchPokemonDetails src ?s1 = fetchPokemonDetails src s"
    by (rule fetchPokemonDetails_generationMap) simp
  show ?case
    by (simp add: Cons.IH [of ?s1] g notNull_append)
qed

lemma fetchPokemonDetailsBatch_eq:
  "fetchPokemonDetailsBatch src pokemonList s =
     s\<lparr>allPokemon :=
         allPokemon s @ notNull (map (fetchPokemonDetails src s) (filter inRange pokemonList))\<rparr>"
  unfolding fetchPokemonDetailsBatch_def Let_def
  by (simp only: fold_batches concat_makeBatches drop_0)

lemma init_failure:
  "fetchList src = None \<Longrightarrow> init src lang s = (Some FetchError, fetchGenerationMappings src s)"
  by (simp add: init_def fetchPokemonList_def Let_def)

lemma allPokemon_fetchGenerationMappings:
  "allPokemon (fetchGenerationMappings src s) = allPokemon s"
  by (simp add: fetchGenerationMappings_def)

lemma init_success:
  "fetchList src = Some l \<Longrightarrow>
     fst (init src lang s) = None
     \<and> allPokemon (snd (init src lang s)) =
         sort_key id' (allPokemon s @
           notNull (map (fetchPokemonDetails src (fetchGenerationMappings src s)) (filter inRange l)))
     \<and> displayedPokemon (snd (init src lang s)) = allPokemon (snd (init src lang s))"
  by (simp add: init_def fetchPokemonList_def Let_def fetchPokemonDetailsBatch_eq
      setupEventListeners_def allPokemon_fetchGenerationMappings)

lemma fetchPokemonDetails_None:
  "fetchPokemonDetails src s r = None \<longleftrightarrow> fetchDetail src (urlR r) = None"
  by (simp add: fetchPokemonDetails_def Let_def split: option.split prod.split)

lemma fetchPokemonDetails_Some:
  "fetchPokemonDetails src s r = Some p \<Longrightarrow>
     \<exists>d. fetchDetail src (urlR r) = Some d \<and> id' p = idD d \<and> name p = nameD d
       \<and> (names p, isBaby p, isLegendary p, isMythical p, color p, evolutionStage p) = speciesInfo src d"
  by (auto simp add: fetchPokemonDetails_def Let_def split: option.splits prod.splits)

lemma speciesInfo_species_failure:
  "fetchSpecies src (urlR (speciesD d)) = None \<Longrightarrow>
     speciesInfo src d = ([], False, False, False, None, 1)"
  by (simp add: speciesInfo_def)

lemma speciesInfo_stage:
  "fetchSpecies src (urlR (speciesD d)) = Some sd \<Longrightarrow>
     snd (snd (snd (snd (snd (speciesInfo src d))))) =
       (case evolves_from_species sd of
          None \<Rightarrow> 1
        | Some prev \<Rightarrow>
            (case fetchSpecies src (urlR prev) of
               None \<Rightarrow> 1
             | Some pd \<Rightarrow> if evolves_from_species pd \<noteq> None then 3 else 2))"
  by (simp add: speciesInfo_def Let_def)

lemma speciesInfo_stage_range:
  "snd (snd (snd (snd (snd (speciesInfo src d))))) \<in> {1, 2, 3}"
  by (simp add: speciesInfo_def Let_def split: option.split)

lemma speciesInfo_color:
  "fst (snd (snd (snd (snd (speciesInfo src d))))) \<noteq> Some []"
  by (simp add: speciesInfo_def Let_def split: option.split)

lemma ingested_color_not_empty:
  "fetchPokemonDetails src s r = Some p \<Longrightarrow> color p \<noteq> Some []"
  using speciesInfo_color[of src] by (auto dest!: fetchPokemonDetails_Some) (metis fst_conv snd_conv)

lemma map_insort_key: "map f (insort_key f x xs) = insort (f x) (map f xs)"
  by (induction xs) simp_all

lemma map_sort_key: "map f (sort_key f xs) = sort (map f xs)"
  by (induction xs) (simp_all add: map_insort_key)

lemma notNull_map_option: "map f (notNull rs) = notNull (map (map_option f) rs)"
  by (induction rs rule: notNull.induct) simp_all

lemma fetchPokemonDetails_id:
  "map_option id' (fetchPokemonDetails src s r) = map_option idD (fetchDetail src (urlR r))"
  by (simp add: fetchPokemonDetails_def Let_def split: option.split prod.split)

lemma fetchPokemonDetails_stage:
  "map_option evolutionStage (fetchPokemonDetails src s r) =
     map_option (\<lambda>d. snd (snd (snd (snd (snd (speciesInfo src d)))))) (fetchDetail src (urlR r))"
  by (simp add: fetchPokemonDetails_def Let_def split: option.split prod.split)

lemma catalog_ids:
  "fetchList src = Some l \<Longrightarrow>
     map id' (allPokemon (snd (init src lang s))) =
       sort (map id' (allPokemon s)
             @ notNull (map (\<lambda>r. map_option idD (fetchDetail src (urlR r))) (filter inRange l)))"
  by (simp add: init_success map_sort_key notNull_map_option fetchPokemonDetails_id comp_def)

lemma exampleSource_list:
  "fetchList exampleSource =
     Some [pokemonRef ''d'' ''4'', pokemonRef ''a'' ''1'', pokemonRef ''lost'' ''5'',
           pokemonRef ''b'' ''2'', pokemonRef ''c'' ''3'', pokemonRef ''e'' ''6'',
           pokemonRef ''f'' ''7'', pokemonRef ''a-mega'' ''10001'']"
  by (simp add: exampleSource_def)

lemma inRange_examples:
  "inRange (pokemonRef ''d'' ''4'')" "inRange (pokemonRef ''a'' ''1'')"
  "inRange (pokemonRef ''lost'' ''5'')" "inRange (pokemonRef ''b'' ''2'')"
  "inRange (pokemonRef ''c'' ''3'')" "inRange (pokemonRef ''e'' ''6'')"
  "inRange (pokemonRef ''f'' ''7'')" "\<not> inRange (pokemonRef ''a-mega'' ''10001'')"
  by (simp_all add: pokemonRef_def inRange_def pokemonIdOfUrl_def parseInt_def
      isWhiteSpace_def digitValue_def MAX_POKEMON_ID_def Let_def)

lemma exampleSource_details:
  "fetchDetail exampleSource (urlR (pokemonRef ''a'' ''1'')) = Some (detailOf 1 ''a'' ''fire'')"
  "fetchDetail exampleSource (urlR (pokemonRef ''b'' ''2'')) = Some (detailOf 2 ''b'' ''fire'')"
  "fetchDetail exampleSource (urlR (pokemonRef ''c'' ''3'')) = Some (detailOf 3 ''c'' ''fire'')"
  "fetchDetail exampleSource (urlR (pokemonRef ''d'' ''4'')) = Some (detailOf 4 ''d'' ''fire'')"
  "fetchDetail exampleSource (urlR (pokemonRef ''lost'' ''5'')) = None"
  "fetchDetail exampleSource (urlR (pokemonRef ''e'' ''6'')) = Some (detailOf 6 ''e'' ''water'')"
  "fetchDetail exampleSource (urlR (pokemonRef ''f'' ''7'')) = Some (detailOf 7 ''f'' ''water'')"
  by (simp_all add: exampleSource_def pokemonRef_def)

lemma exampleSource_species:
  "fetchSpecies exampleSource (urlR (speciesRef ''a'')) = Some (speciesOf ''a'' None)"
  "fetchSpecies exampleSource (urlR (speciesRef ''b'')) = Some (speciesOf ''b'' (Some ''a''))"
  "fetchSpecies exampleSource (urlR (speciesRef ''c'')) = Some (speciesOf ''c'' (Some ''b''))"
  "fetchSpecies exampleSource (urlR (speciesRef ''d'')) = Some (speciesOf ''d'' (Some ''c''))"
  "fetchSpecies exampleSource (urlR (speciesRef ''e'')) = None"
  "fetchSpecies exampleSource (urlR (speciesRef ''f'')) = Some (speciesOf ''f'' (Some ''gone''))"
  "fetchSpecies exampleSource (urlR (speciesRef ''gone'')) = None"
  by (simp_all add: exampleSource_def speciesRef_def)

lemma example_catalog:
  "map id' (allPokemon (snd (init exampleSource None initialState))) = [1, 2, 3, 4, 6, 7]"
  by (simp add: catalog_ids[OF exampleSource_list] inRange_examples exampleSource_details
      initialState_def detailOf_def)

lemma catalog_origin:
  assumes "fetchList src = Some l" "allPokemon s = []"
    and "p \<in> set (allPokemon (snd (init src lang s)))"
  shows "\<exists>r \<in> set l. inRange r \<and> fetchPokemonDetails src (fetchGenerationMappings src s) r = Some p"
proof -
  from assms have "Some p \<in> set (map (fetchPokemonDetails src (fetchGenerationMappings src s))
                                     (filter inRange l))"
    by (simp add: init_success set_notNull)
  then show ?thesis by auto
qed

lemma catalog_empty_on_failure:
  "fetchList src = None \<Longrightarrow> allPokemon s = [] \<Longrightarrow> allPokemon (snd (init src lang s)) = []"
  by (simp add: init_failure allPokemon_fetchGenerationMappings)

lemma fetchPokemonDetails_stage_range:
  "fetchPokemonDetails src s r = Some p \<Longrightarrow> evolutionStage p \<in> {1, 2, 3}"
  using speciesInfo_stage_range[of src]
  by (auto dest!: fetchPokemonDetails_Some) (metis snd_conv)+

lemma catalog_sorted: "fetchList src = Some l \<Longrightarrow> sorted (map id' (allPokemon (snd (init src lang s))))"
  by (simp add: init_success)

subsection \<open>Failures\<close>

lemma fetchGenerationMappings_absorbs:
  assumes "fetchGeneration src i = None"
  shows "fetchGenerationMappings src s =
           fetchGenerationMappings
             (src\<lparr>fetchGeneration := (fetchGeneration src)(i := Some \<lparr>pokemon_species = []\<rparr>)\<rparr>) s"
proof -
  have "(\<lambda>j m. case fetchGeneration src j of
                  None \<Rightarrow> m
                | Some d \<Rightarrow> fold (\<lambda>species m. m(nameR species \<mapsto> j)) (pokemon_species d) m)
      = (\<lambda>j m. case ((fetchGeneration src)(i := Some \<lparr>pokemon_species = []\<rparr>)) j of
                  None \<Rightarrow> m
                | Some d \<Rightarrow> fold (\<lambda>species m. m(nameR species \<mapsto> j)) (pokemon_species d) m)"
    using assms by (intro ext) simp
  then show ?thesis by (simp add: fetchGenerationMappings_def)
qed

text \<open>
  Claim C2, as the code has it. When the request for the reference list fails, \<^verbatim>\<open>init\<close>
  ends in its \<^verbatim>\<open>catch\<close> with the catalog as it was (empty). When it succeeds, the catalog
  is the sorted list of the records of the in-range references whose detail request
  succeeded, so a failed detail request drops that entity alone. A record is dropped
  only when its detail request fails: when the request for its species fails the entity
  is kept, with no localized names, the three flags false, no color and stage 1, and when
  the request for its predecessor's species fails it is kept with stage 1 and with the
  names, the flags and the color of its species record. A failed generation request
  leaves the index as a generation without species would.
\<close>

theorem ingestion_failures:
  "(fetchList src = None \<longrightarrow>
      fst (init src lang s) = Some FetchError
      \<and> allPokemon (snd (init src lang s)) = allPokemon s)
   \<and> (\<forall>l. fetchList src = Some l \<longrightarrow>
        fst (init src lang s) = None
        \<and> allPokemon (snd (init src lang s)) =
            sort_key id' (allPokemon s @
              notNull (map (fetchPokemonDetails src (fetchGenerationMappings src s))
                           (filter inRange l))))
   \<and> (fetchPokemonDetails src s r = None \<longleftrightarrow> fetchDetail src (urlR r) = None)
   \<and> (\<forall>d. fetchDetail src (urlR r) = Some d \<and> fetchSpecies src (urlR (speciesD d)) = None \<longrightarrow>
        (\<exists>p. fetchPokemonDetails src s r = Some p \<and> id' p = idD d \<and> names p = []
           \<and> \<not> isBaby p \<and> \<not> isLegendary p \<and> \<not> isMythical p \<and> color p = None
           \<and> evolutionStage p = 1))
   \<and> (\<forall>d sd prev.
        fetchDetail src (urlR r) = Some d \<and> fetchSpecies src (urlR (speciesD d)) = Some sd
        \<and> evolves_from_species sd = Some prev \<and> fetchSpecies src (urlR prev) = None \<longrightarrow>
        (\<exists>p. fetchPokemonDetails src s r = Some p \<and> id' p = idD d
           \<and> names p = localizedNames sd
           \<and> isBaby p = (is_baby sd = Some True)
           \<and> isLegendary p = (is_legendary sd = Some True)
           \<and> isMythical p = (is_mythical sd = Some True)
           \<and> color p = colorName sd
           \<and> evolutionStage p = 1))
   \<and> (fetchGeneration src i = None \<longrightarrow>
        fetchGenerationMappings src s =
          fetchGenerationMappings
            (src\<lparr>fetchGeneration := (fetchGeneration src)(i := Some \<lparr>pokemon_species = []\<rparr>)\<rparr>) s)"
proof (intro conjI impI allI)
  assume f: "fetchList src = None"
  show "fst (init src lang s) = Some FetchError"
    and "allPokemon (snd (init src lang s)) = allPokemon s"
    by (simp_all add: init_failure[OF f] allPokemon_fetchGenerationMappings)
next
  fix l assume l: "fetchList src = Some l"
  from init_success[OF l, of lang s]
  show "fst (init src lang s) = None"
    and "allPokemon (snd (init src lang s)) =
            sort_key id' (allPokemon s @
              notNull (map (fetchPokemonDetails src (fetchGenerationMappings src s))
                           (filter inRange l)))"
    by simp_all
next
  show "fetchPokemonDetails src s r = None \<longleftrightarrow> fetchDetail src (urlR r) = None"
    by (rule fetchPokemonDetails_None)
next
  fix d assume "fetchDetail src (urlR r) = Some d \<and> fetchSpecies src (urlR (speciesD d)) = None"
  then show "\<exists>p. fetchPokemonDetails src s r = Some p \<and> id' p = idD d \<and> names p = []
           \<and> \<not> isBaby p \<and> \<not> isLegendary p \<and> \<not> isMythical p \<and> color p = None
           \<and> evolutionStage p = 1"
    by (simp add: fetchPokemonDetails_def Let_def speciesInfo_species_failure)
next
  fix d sd prev
  assume "fetchDetail src (urlR r) = Some d \<and> fetchSpecies src (urlR (speciesD d)) = Some sd
        \<and> evolves_from_species sd = Some prev \<and> fetchSpecies src (urlR prev) = None"
  then show "\<exists>p. fetchPokemonDetails src s r = Some p \<and> id' p = idD d
           \<and> names p = localizedNames sd
           \<and> isBaby p = (is_baby sd = Some True)
           \<and> isLegendary p = (is_legendary sd = Some True)
           \<and> isMythical p = (is_mythical sd = Some True)
           \<and> color p = colorName sd
           \<and> evolutionStage p = 1"
    by (simp add: fetchPokemonDetails_def Let_def speciesInfo_def localizedNames_def colorName_def)
next
  assume "fetchGeneration src i = None"
  then show "fetchGenerationMappings src s =
          fetchGenerationMappings
            (src\<lparr>fetchGeneration := (fetchGeneration src)(i := Some \<lparr>pokemon_species = []\<rparr>)\<rparr>) s"
    by (rule fetchGenerationMappings_absorbs)
qed

lemma failingSource_list: "fetchList failingSource = None"
  by (simp add: failingSource_def)

theorem ingestion_failures_witness:
  "fst (init failingSource None initialState) = Some FetchError
   \<and> allPokemon (snd (init failingSource None initialState)) = []
   \<and> fst (init exampleSource None initialState) = None
   \<and> fetchPokemonDetails exampleSource initialState (pokemonRef ''lost'' ''5'') = None
   \<and> fetchPokemonDetails exampleSource initialState (pokemonRef ''e'' ''6'') \<noteq> None
   \<and> fetchPokemonDetails exampleSource initialState (pokemonRef ''f'' ''7'') \<noteq> None
   \<and> map_option names
        (fetchPokemonDetails exampleSource initialState (pokemonRef ''f'' ''7''))
       = Some [(''en'', ''f'')]
   \<and> map_option color
        (fetchPokemonDetails exampleSource initialState (pokemonRef ''f'' ''7''))
       = Some (Some ''red'')
   \<and> map_option evolutionStage
        (fetchPokemonDetails exampleSource initialState (pokemonRef ''f'' ''7''))
       = Some 1"
proof -
  note a = ingestion_failures [of failingSource None initialState "pokemonRef ''lost'' ''5''" 2]
  note b = ingestion_failures [of exampleSource None initialState "pokemonRef ''lost'' ''5''" 2]
  note c = ingestion_failures [of exampleSource None initialState "pokemonRef ''e'' ''6''" 2]
  note d = ingestion_failures [of exampleSource None initialState "pokemonRef ''f'' ''7''" 2]
  from a failingSource_list
  have 1: "fst (init failingSource None initialState) = Some FetchError"
    and 2: "allPokemon (snd (init failingSource None initialState)) = []"
    by (simp_all add: initialState_def)
  from b exampleSource_list have 3: "fst (init exampleSource None initialState) = None"
    by simp
  from b exampleSource_details(5)
  have 4: "fetchPokemonDetails exampleSource initialState (pokemonRef ''lost'' ''5'') = None"
    by simp
  from c exampleSource_details(6)
  have 5: "fetchPokemonDetails exampleSource initialState (pokemonRef ''e'' ''6'') \<noteq> None"
    by simp
  from d exampleSource_details(7)
  have 6: "fetchPokemonDetails exampleSource initialState (pokemonRef ''f'' ''7'') \<noteq> None"
    by simp
  have sf: "speciesD (detailOf 7 ''f'' ''water'') = speciesRef ''f''"
    by (simp add: detailOf_def)
  have ef: "evolves_from_species (speciesOf ''f'' (Some ''gone'')) = Some (speciesRef ''gone'')"
    by (simp add: speciesOf_def)
  have nf: "localizedNames (speciesOf ''f'' (Some ''gone'')) = [(''en'', ''f'')]"
    by (simp add: localizedNames_def speciesOf_def targetLanguages_def)
  have cf: "colorName (speciesOf ''f'' (Some ''gone'')) = Some ''red''"
    by (simp add: colorName_def speciesOf_def)
  from d exampleSource_details(7) exampleSource_species(6,7) sf ef
  have "\<exists>p. fetchPokemonDetails exampleSource initialState (pokemonRef ''f'' ''7'') = Some p
          \<and> names p = localizedNames (speciesOf ''f'' (Some ''gone''))
          \<and> color p = colorName (speciesOf ''f'' (Some ''gone''))
          \<and> evolutionStage p = 1"
    by auto
  with nf cf
  have 7: "map_option names
        (fetchPokemonDetails exampleSource initialState (pokemonRef ''f'' ''7''))
       = Some [(''en'', ''f'')]"
    and 8: "map_option color
        (fetchPokemonDetails exampleSource initialState (pokemonRef ''f'' ''7''))
       = Some (Some ''red'')"
    and 9: "map_option evolutionStage
        (fetchPokemonDetails exampleSource initialState (pokemonRef ''f'' ''7''))
       = Some 1"
    by auto
  from 1 2 3 4 5 6 7 8 9 show ?thesis by simp
qed

text \<open>
  The species request of entity 6 of the example source fails, and the entity is in the
  catalog.
\<close>

theorem species_failure_keeps_entity:
  "fetchDetail exampleSource (urlR (pokemonRef ''e'' ''6'')) = Some (detailOf 6 ''e'' ''water'')
   \<and> fetchSpecies exampleSource (urlR (speciesD (detailOf 6 ''e'' ''water''))) = None
   \<and> map id' (allPokemon (snd (init exampleSource None initialState))) = [1, 2, 3, 4, 6, 7]"
  using exampleSource_details(6) exampleSource_species(5) example_catalog
  by (simp add: detailOf_def)

subsection \<open>Evolution stage\<close>

lemma stage_cases:
  assumes "fetchSpecies src (urlR (speciesD d)) = Some sd"
  shows "evolves_from_species sd = None \<Longrightarrow>
           snd (snd (snd (snd (snd (speciesInfo src d))))) = 1"
    and "evolves_from_species sd = Some prev \<Longrightarrow> fetchSpecies src (urlR prev) = None \<Longrightarrow>
           snd (snd (snd (snd (snd (speciesInfo src d))))) = 1"
    and "evolves_from_species sd = Some prev \<Longrightarrow> fetchSpecies src (urlR prev) = Some pd \<Longrightarrow>
           evolves_from_species pd = None \<Longrightarrow>
           snd (snd (snd (snd (snd (speciesInfo src d))))) = 2"
    and "evolves_from_species sd = Some prev \<Longrightarrow> fetchSpecies src (urlR prev) = Some pd \<Longrightarrow>
           evolves_from_species pd \<noteq> None \<Longrightarrow>
           snd (snd (snd (snd (snd (speciesInfo src d))))) = 3"
  by (simp_all add: speciesInfo_stage[OF assms])

text \<open>
  Claim C3, as the code has it. The \<^verbatim>\<open>evolutionStage\<close> of every record that
  \<^verbatim>\<open>fetchPokemonDetails\<close> returns, and so of every record of the catalog that \<^verbatim>\<open>init\<close>
  builds, is 1, 2 or 3. It is read from the species record and, at most, the species
  record of the predecessor: 1 when the species has no predecessor, 2 when it has one and
  the predecessor's record names none, 3 when the predecessor's record names a
  predecessor of its own. Nothing further is followed, so the last species of a chain of
  four has stage 3 (see the instance below). The stage is also 1, its default, when the
  request for the species record fails, and when the species names a predecessor and the
  request for the predecessor's record fails.
\<close>

theorem evolutionStage_one_hop:
  "(fetchPokemonDetails src s r = Some p \<longrightarrow>
      evolutionStage p \<in> {1, 2, 3}
      \<and> (\<exists>d. fetchDetail src (urlR r) = Some d
            \<and> (fetchSpecies src (urlR (speciesD d)) = None \<longrightarrow> evolutionStage p = 1)
            \<and> (\<forall>sd. fetchSpecies src (urlR (speciesD d)) = Some sd \<longrightarrow>
                 (evolves_from_species sd = None \<longrightarrow> evolutionStage p = 1)
               \<and> (\<forall>prev. evolves_from_species sd = Some prev \<longrightarrow>
                     (fetchSpecies src (urlR prev) = None \<longrightarrow> evolutionStage p = 1)
                   \<and> (\<forall>pd. fetchSpecies src (urlR prev) = Some pd \<longrightarrow>
                         (evolves_from_species pd = None \<longrightarrow> evolutionStage p = 2)
                       \<and> (evolves_from_species pd \<noteq> None \<longrightarrow> evolutionStage p = 3))))))
   \<and> (allPokemon s0 = [] \<longrightarrow>
        (\<forall>q \<in> set (allPokemon (snd (init src lang s0))). evolutionStage q \<in> {1, 2, 3}))"
proof (intro conjI impI)
  assume p: "fetchPokemonDetails src s r = Some p"
  then show "evolutionStage p \<in> {1, 2, 3}" by (rule fetchPokemonDetails_stage_range)
  from fetchPokemonDetails_Some[OF p] obtain d where d: "fetchDetail src (urlR r) = Some d"
    and i: "(names p, isBaby p, isLegendary p, isMythical p, color p, evolutionStage p)
              = speciesInfo src d"
    by blast
  from i have st: "evolutionStage p = snd (snd (snd (snd (snd (speciesInfo src d)))))"
    by (metis snd_conv)
  have none: "fetchSpecies src (urlR (speciesD d)) = None \<longrightarrow> evolutionStage p = 1"
    by (simp add: st speciesInfo_species_failure)
  have some: "\<forall>sd. fetchSpecies src (urlR (speciesD d)) = Some sd \<longrightarrow>
                 (evolves_from_species sd = None \<longrightarrow> evolutionStage p = 1)
               \<and> (\<forall>prev. evolves_from_species sd = Some prev \<longrightarrow>
                     (fetchSpecies src (urlR prev) = None \<longrightarrow> evolutionStage p = 1)
                   \<and> (\<forall>pd. fetchSpecies src (urlR prev) = Some pd \<longrightarrow>
                         (evolves_from_species pd = None \<longrightarrow> evolutionStage p = 2)
                       \<and> (evolves_from_species pd \<noteq> None \<longrightarrow> evolutionStage p = 3)))"
  proof (intro allI impI)
    fix sd assume sd: "fetchSpecies src (urlR (speciesD d)) = Some sd"
    show "(evolves_from_species sd = None \<longrightarrow> evolutionStage p = 1)
               \<and> (\<forall>prev. evolves_from_species sd = Some prev \<longrightarrow>
                     (fetchSpecies src (urlR prev) = None \<longrightarrow> evolutionStage p = 1)
                   \<and> (\<forall>pd. fetchSpecies src (urlR prev) = Some pd \<longrightarrow>
                         (evolves_from_species pd = None \<longrightarrow> evolutionStage p = 2)
                       \<and> (evolves_from_species pd \<noteq> None \<longrightarrow> evolutionStage p = 3)))"
      by (intro conjI allI impI) (simp_all add: st stage_cases[OF sd])
  qed
  from d none some
  show "\<exists>d. fetchDetail src (urlR r) = Some d
            \<and> (fetchSpecies src (urlR (speciesD d)) = None \<longrightarrow> evolutionStage p = 1)
            \<and> (\<forall>sd. fetchSpecies src (urlR (speciesD d)) = Some sd \<longrightarrow>
                 (evolves_from_species sd = None \<longrightarrow> evolutionStage p = 1)
               \<and> (\<forall>prev. evolves_from_species sd = Some prev \<longrightarrow>
                     (fetchSpecies src (urlR prev) = None \<longrightarrow> evolutionStage p = 1)
                   \<and> (\<forall>pd. fetchSpecies src (urlR prev) = Some pd \<longrightarrow>
                         (evolves_from_species pd = None \<longrightarrow> evolutionStage p = 2)
                       \<and> (evolves_from_species pd \<noteq> None \<longrightarrow> evolutionStage p = 3))))"
    by (intro exI[of _ d] conjI)
next
  assume e: "allPokemon s0 = []"
  show "\<forall>q \<in> set (allPokemon (snd (init src lang s0))). evolutionStage q \<in> {1, 2, 3}"
  proof
    fix q assume q: "q \<in> set (allPokemon (snd (init src lang s0)))"
    show "evolutionStage q \<in> {1, 2, 3}"
    proof (cases "fetchList src")
      case None
      from catalog_empty_on_failure[OF None e] q show ?thesis by simp
    next
      case (Some l)
      from catalog_origin[OF Some e q] show ?thesis
        by (auto dest: fetchPokemonDetails_stage_range)
    qed
  qed
qed

theorem evolutionStage_one_hop_witness:
  "evolves_from_species (speciesOf ''d'' (Some ''c'')) = Some (speciesRef ''c'')
   \<and> evolves_from_species (speciesOf ''c'' (Some ''b'')) = Some (speciesRef ''b'')
   \<and> evolves_from_species (speciesOf ''b'' (Some ''a'')) = Some (speciesRef ''a'')
   \<and> evolves_from_species (speciesOf ''a'' None) = None
   \<and> map_option evolutionStage
        (fetchPokemonDetails exampleSource initialState (pokemonRef ''d'' ''4'')) = Some 3
   \<and> map_option evolutionStage
        (fetchPokemonDetails exampleSource initialState (pokemonRef ''b'' ''2'')) = Some 2
   \<and> map_option evolutionStage
        (fetchPokemonDetails exampleSource initialState (pokemonRef ''a'' ''1'')) = Some 1"
proof -
  have chain: "evolves_from_species (speciesOf ''d'' (Some ''c'')) = Some (speciesRef ''c'')"
    "evolves_from_species (speciesOf ''c'' (Some ''b'')) = Some (speciesRef ''b'')"
    "evolves_from_species (speciesOf ''b'' (Some ''a'')) = Some (speciesRef ''a'')"
    "evolves_from_species (speciesOf ''a'' None) = None"
    by (simp_all add: speciesOf_def)
  have sp: "speciesD (detailOf 4 ''d'' ''fire'') = speciesRef ''d''"
    "speciesD (detailOf 2 ''b'' ''fire'') = speciesRef ''b''"
    "speciesD (detailOf 1 ''a'' ''fire'') = speciesRef ''a''"
    by (simp_all add: detailOf_def)
  have "fetchPokemonDetails exampleSource initialState (pokemonRef ''d'' ''4'') \<noteq> None"
    by (simp add: fetchPokemonDetails_None exampleSource_details)
  then obtain pd where pd: "fetchPokemonDetails exampleSource initialState (pokemonRef ''d'' ''4'') = Some pd"
    by blast
  from evolutionStage_one_hop[of exampleSource initialState "pokemonRef ''d'' ''4''" pd] pd
  have "evolutionStage pd = 3"
    using exampleSource_details(4) exampleSource_species(3,4) chain sp by auto
  with pd have d: "map_option evolutionStage
        (fetchPokemonDetails exampleSource initialState (pokemonRef ''d'' ''4'')) = Some 3"
    by simp
  have "fetchPokemonDetails exampleSource initialState (pokemonRef ''b'' ''2'') \<noteq> None"
    by (simp add: fetchPokemonDetails_None exampleSource_details)
  then obtain pb where pb: "fetchPokemonDetails exampleSource initialState (pokemonRef ''b'' ''2'') = Some pb"
    by blast
  from evolutionStage_one_hop[of exampleSource initialState "pokemonRef ''b'' ''2''" pb] pb
  have "evolutionStage pb = 2"
    using exampleSource_details(2) exampleSource_species(1,2) chain sp by auto
  with pb have b: "map_option evolutionStage
        (fetchPokemonDetails exampleSource initialState (pokemonRef ''b'' ''2'')) = Some 2"
    by simp
  have "fetchPokemonDetails exampleSource initialState (pokemonRef ''a'' ''1'') \<noteq> None"
    by (simp add: fetchPokemonDetails_None exampleSource_details)
  then obtain pa where pa: "fetchPokemonDetails exampleSource initialState (pokemonRef ''a'' ''1'') = Some pa"
    by blast
  from evolutionStage_one_hop[of exampleSource initialState "pokemonRef ''a'' ''1''" pa] pa
  have "evolutionStage pa = 1"
    using exampleSource_details(1) exampleSource_species(1) chain sp by auto
  with pa have a: "map_option evolutionStage
        (fetchPokemonDetails exampleSource initialState (pokemonRef ''a'' ''1'')) = Some 1"
    by simp
  from chain d b a show ?thesis by simp
qed

text \<open>
  Entity 7 of the example source: its species record names a predecessor, the request
  for the predecessor's record fails, and the entity is in the catalog with stage 1,
  neither 2 nor 3.
\<close>

theorem predecessor_failure_stage_1:
  "fetchDetail exampleSource (urlR (pokemonRef ''f'' ''7'')) = Some (detailOf 7 ''f'' ''water'')
   \<and> fetchSpecies exampleSource (urlR (speciesD (detailOf 7 ''f'' ''water'')))
       = Some (speciesOf ''f'' (Some ''gone''))
   \<and> evolves_from_species (speciesOf ''f'' (Some ''gone'')) = Some (speciesRef ''gone'')
   \<and> fetchSpecies exampleSource (urlR (speciesRef ''gone'')) = None
   \<and> map_option evolutionStage
        (fetchPokemonDetails exampleSource initialState (pokemonRef ''f'' ''7'')) = Some 1
   \<and> map id' (allPokemon (snd (init exampleSource None initialState))) = [1, 2, 3, 4, 6, 7]"
proof -
  have sf: "speciesD (detailOf 7 ''f'' ''water'') = speciesRef ''f''"
    by (simp add: detailOf_def)
  have ef: "evolves_from_species (speciesOf ''f'' (Some ''gone'')) = Some (speciesRef ''gone'')"
    by (simp add: speciesOf_def)
  have st: "map_option evolutionStage
        (fetchPokemonDetails exampleSource initialState (pokemonRef ''f'' ''7'')) = Some 1"
    by (simp add: fetchPokemonDetails_stage exampleSource_details(7)
        speciesInfo_stage[of exampleSource _ "speciesOf ''f'' (Some ''gone'')"]
        sf ef exampleSource_species(6,7))
  from sf ef st exampleSource_details(7) exampleSource_species(6,7) example_catalog
  show ?thesis by simp
qed

subsection \<open>Order and bound of the catalog\<close>

text \<open>
  Claim C4. After \<^verbatim>\<open>init\<close> has fetched the reference list, the catalog is sorted
  ascending by \<^verbatim>\<open>id\<close>, and every record in it was fetched for a reference of the list
  whose URL encodes an id of at most \<^verbatim>\<open>MAX_POKEMON_ID\<close>: the other references are filtered
  out before any detail is requested. A reference encodes the id of its entity: for a
  source whose detail records carry the id that the URL of their reference encodes,
  every record of the catalog has an id of at most \<^verbatim>\<open>MAX_POKEMON_ID\<close>.
\<close>

theorem catalog_sorted_and_bounded:
  assumes "fetchList src = Some l" and "allPokemon s = []"
  shows "sorted (map id' (allPokemon (snd (init src lang s))))
       \<and> (\<forall>p \<in> set (allPokemon (snd (init src lang s))).
            \<exists>r \<in> set l. (\<exists>i. pokemonIdOfUrl (urlR r) = Some i \<and> i \<le> MAX_POKEMON_ID)
                         \<and> fetchPokemonDetails src (fetchGenerationMappings src s) r = Some p)
       \<and> ((\<forall>r \<in> set l. \<forall>d. fetchDetail src (urlR r) = Some d \<longrightarrow>
                               pokemonIdOfUrl (urlR r) = Some (idD d))
            \<longrightarrow> (\<forall>p \<in> set (allPokemon (snd (init src lang s))). id' p \<le> MAX_POKEMON_ID))"
proof (intro conjI impI ballI)
  show "sorted (map id' (allPokemon (snd (init src lang s))))"
    using assms(1) by (rule catalog_sorted)
next
  fix p assume p: "p \<in> set (allPokemon (snd (init src lang s)))"
  from catalog_origin[OF assms p] obtain r where r: "r \<in> set l" "inRange r"
    and f: "fetchPokemonDetails src (fetchGenerationMappings src s) r = Some p"
    by blast
  from r(2) have "\<exists>i. pokemonIdOfUrl (urlR r) = Some i \<and> i \<le> MAX_POKEMON_ID"
    by (simp add: inRange_def split: option.splits)
  with r(1) f
  show "\<exists>r \<in> set l. (\<exists>i. pokemonIdOfUrl (urlR r) = Some i \<and> i \<le> MAX_POKEMON_ID)
                         \<and> fetchPokemonDetails src (fetchGenerationMappings src s) r = Some p"
    by blast
next
  fix p
  assume c: "\<forall>r \<in> set l. \<forall>d. fetchDetail src (urlR r) = Some d \<longrightarrow>
                               pokemonIdOfUrl (urlR r) = Some (idD d)"
    and p: "p \<in> set (allPokemon (snd (init src lang s)))"
  from catalog_origin[OF assms p] obtain r where r: "r \<in> set l" "inRange r"
    and f: "fetchPokemonDetails src (fetchGenerationMappings src s) r = Some p"
    by blast
  from fetchPokemonDetails_Some[OF f] obtain d where d: "fetchDetail src (urlR r) = Some d"
    and i: "id' p = idD d" by blast
  from c r(1) d have "pokemonIdOfUrl (urlR r) = Some (idD d)" by blast
  with r(2) have "idD d \<le> MAX_POKEMON_ID" by (simp add: inRange_def)
  with i show "id' p \<le> MAX_POKEMON_ID" by simp
qed

theorem catalog_sorted_and_bounded_witness:
  "fetchList exampleSource =
     Some [pokemonRef ''d'' ''4'', pokemonRef ''a'' ''1'', pokemonRef ''lost'' ''5'',
           pokemonRef ''b'' ''2'', pokemonRef ''c'' ''3'', pokemonRef ''e'' ''6'',
           pokemonRef ''f'' ''7'', pokemonRef ''a-mega'' ''10001'']
   \<and> allPokemon initialState = []
   \<and> sorted (map id' (allPokemon (snd (init exampleSource None initialState))))
   \<and> map id' (allPokemon (snd (init exampleSource None initialState))) = [1, 2, 3, 4, 6, 7]
   \<and> list_all (\<lambda>p. id' p \<le> MAX_POKEMON_ID) (allPokemon (snd (init exampleSource None initialState)))"
proof -
  have e: "allPokemon initialState = []" by (simp add: initialState_def)
  note t = catalog_sorted_and_bounded[OF exampleSource_list e, of None]
  have ids: "pokemonIdOfUrl (urlR (pokemonRef ''d'' ''4'')) = Some 4"
    "pokemonIdOfUrl (urlR (pokemonRef ''a'' ''1'')) = Some 1"
    "pokemonIdOfUrl (urlR (pokemonRef ''b'' ''2'')) = Some 2"
    "pokemonIdOfUrl (urlR (pokemonRef ''c'' ''3'')) = Some 3"
    "pokemonIdOfUrl (urlR (pokemonRef ''e'' ''6'')) = Some 6"
    "pokemonIdOfUrl (urlR (pokemonRef ''f'' ''7'')) = Some 7"
    "pokemonIdOfUrl (urlR (pokemonRef ''a-mega'' ''10001'')) = Some 10001"
    by (simp_all add: pokemonRef_def pokemonIdOfUrl_def parseInt_def isWhiteSpace_def
        digitValue_def Let_def)
  have mega: "fetchDetail exampleSource (urlR (pokemonRef ''a-mega'' ''10001''))
                = Some (detailOf 10001 ''a-mega'' ''fire'')"
    by (simp add: exampleSource_def pokemonRef_def)
  have consistent:
    "\<forall>r \<in> set [pokemonRef ''d'' ''4'', pokemonRef ''a'' ''1'', pokemonRef ''lost'' ''5'',
           pokemonRef ''b'' ''2'', pokemonRef ''c'' ''3'', pokemonRef ''e'' ''6'',
           pokemonRef ''f'' ''7'', pokemonRef ''a-mega'' ''10001''].
       \<forall>d. fetchDetail exampleSource (urlR r) = Some d \<longrightarrow> pokemonIdOfUrl (urlR r) = Some (idD d)"
    by (auto simp add: exampleSource_details mega ids detailOf_def)
  from t consistent
  have "\<forall>p \<in> set (allPokemon (snd (init exampleSource None initialState))). id' p \<le> MAX_POKEMON_ID"
    by blast
  then have "list_all (\<lambda>p. id' p \<le> MAX_POKEMON_ID) (allPokemon (snd (init exampleSource None initialState)))"
    by (simp add: list_all_iff)
  with t exampleSource_list e example_catalog show ?thesis by simp
qed

end
